theory Spec2Isabelle
  imports Main "HOL-Library.AList"
begin

section \<open>Python values, dictionaries and outcomes\<close>

text \<open>
  The values an \<open>argparse\<close> namespace of \<open>book_flight.py\<close> can hold: \<open>None\<close>, a string
  or an integer (\<open>--return\<close> has \<open>type=int\<close>). A dictionary is an association list in
  insertion order, as Python's \<open>dict\<close> is: \<open>d[k] = v\<close> is \<open>AList.update k v d\<close> (an existing
  key keeps its place, a new one goes last), \<open>d.pop(k, None)\<close> is \<open>AList.delete k d\<close>,
  and a lookup is \<open>map_of d k\<close>.
\<close>

datatype pyval = PyNone | PyStr string | PyInt int

type_synonym pydict = "(string \<times> pyval) list"

text \<open>
  A decoded JSON document, as \<open>response.json()\<close> returns it. A float is kept as mantissa
  and binary exponent (or infinity, or not-a-number, which Python's decoder accepts);
  only its comparison with \<open>0\<close> is ever observed.
\<close>

datatype pyfloat = Finite int int | Infinite bool | NaN

datatype json =
    JNull
  | JBool bool
  | JInt int
  | JFloat pyfloat
  | JStr string
  | JList "json list"
  | JObj "(string \<times> json) list"

text \<open>
  Exceptions that no handler of the program catches, and the two ways a call can fail
  to return: \<open>sys.exit(n)\<close>, or an exception that propagates to the top.
\<close>

datatype exn = KeyError | IndexError | TypeError | AttributeError | RequestException

datatype failure = SysExit int | Uncaught exn

section \<open>The world the program runs in\<close>

text \<open>
  A call \<open>request(url, params=params, json=json_payload)\<close>, where \<open>request\<close> is
  \<open>requests.get\<close> or \<open>requests.post\<close> and an argument left out is \<open>None\<close>; what the network
  gives back: a \<open>requests.exceptions.ConnectionError\<close> with its message, some other
  exception of the library (not caught by the program), or a response. Of a response the
  program uses \<open>json()\<close> (which raises \<open>JSONDecodeError\<close> when the body does not decode,
  here \<open>decoded = None\<close>) and \<open>str\<close>, which shows the status code.
\<close>

datatype verb = requests_get | requests_post

datatype request = Request verb string "pydict option" "json option"

record response =
  status_code :: nat
  decoded :: "json option"

datatype reply = ConnectionError string | OtherError | Response response

text \<open>
  Objects live in a store: \<open>ns w a\<close> is the attribute dictionary (\<open>__dict__\<close>) of the
  namespace object at address \<open>a\<close>, and \<open>next_addr\<close> the first address not yet in use.
  \<open>printed\<close> lists the arguments of the program's \<open>print\<close> calls and \<open>sent\<close> the calls of
  \<open>requests.get\<close> and \<open>requests.post\<close> it has made, both oldest first. What \<open>argparse\<close>
  itself writes (the help text, the usage message of an error) is not recorded.
\<close>

type_synonym addr = nat

record world =
  ns :: "addr \<Rightarrow> pydict"
  next_addr :: addr
  printed :: "string list"
  sent :: "request list"

definition print :: "string \<Rightarrow> world \<Rightarrow> world" where
  "print s w = w\<lparr>printed := printed w @ [s]\<rparr>"

section \<open>Dates: \<open>strptime\<close> and \<open>strftime\<close>\<close>

text \<open>
  The directives the two formats of this program use. \<open>strptime\<close> turns the format into a
  regular expression with one group per directive and matches it at the start of the
  text; alternatives are tried in order, with backtracking. \<open>dir_regex d s\<close> lists, in that
  order, the ways the group of \<open>d\<close> matches a prefix of \<open>s\<close>: the matched text and the rest.
  The groups are
  \<^item> \<open>%Y\<close>: \<open>\d\d\d\d\<close>;
  \<^item> \<open>%m\<close>: \<open>1[0-2]|0[1-9]|[1-9]\<close>;
  \<^item> \<open>%d\<close>: \<open>3[0-1]|[1-2]\d|0[1-9]|[1-9]| [1-9]\<close>.
  Text is a list of 8-bit characters and \<open>\d\<close> is an ASCII digit.
\<close>

datatype directive = Dir_Y | Dir_m | Dir_d | Lit char

definition in_range :: "char \<Rightarrow> char \<Rightarrow> char \<Rightarrow> bool" where
  "in_range lo hi c = ((of_char lo :: nat) \<le> of_char c \<and> (of_char c :: nat) \<le> of_char hi)"

definition is_digit :: "char \<Rightarrow> bool" where
  "is_digit c = in_range CHR ''0'' CHR ''9'' c"

fun cls1 :: "(char \<Rightarrow> bool) \<Rightarrow> string \<Rightarrow> (string \<times> string) list" where
  "cls1 p (c # r) = (if p c then [([c], r)] else [])"
| "cls1 p [] = []"

fun cls2 :: "(char \<Rightarrow> bool) \<Rightarrow> (char \<Rightarrow> bool) \<Rightarrow> string \<Rightarrow> (string \<times> string) list" where
  "cls2 p q (c # c' # r) = (if p c \<and> q c' then [([c, c'], r)] else [])"
| "cls2 p q r = []"

fun cls4 :: "(char \<Rightarrow> bool) \<Rightarrow> string \<Rightarrow> (string \<times> string) list" where
  "cls4 p (a # b # c # d # r) = (if p a \<and> p b \<and> p c \<and> p d then [([a, b, c, d], r)] else [])"
| "cls4 p r = []"

fun dir_regex :: "directive \<Rightarrow> string \<Rightarrow> (string \<times> string) list" where
  "dir_regex Dir_Y s = cls4 is_digit s"
| "dir_regex Dir_m s =
     cls2 ((=) CHR ''1'') (in_range CHR ''0'' CHR ''2'') s
     @ cls2 ((=) CHR ''0'') (in_range CHR ''1'' CHR ''9'') s
     @ cls1 (in_range CHR ''1'' CHR ''9'') s"
| "dir_regex Dir_d s =
     cls2 ((=) CHR ''3'') (in_range CHR ''0'' CHR ''1'') s
     @ cls2 (in_range CHR ''1'' CHR ''2'') is_digit s
     @ cls2 ((=) CHR ''0'') (in_range CHR ''1'' CHR ''9'') s
     @ cls1 (in_range CHR ''1'' CHR ''9'') s
     @ cls2 ((=) CHR '' '') (in_range CHR ''1'' CHR ''9'') s"
| "dir_regex (Lit c) s = cls1 ((=) c) s"

text \<open>
  All matches of a whole format at the start of the text, in the order the regular
  expression engine finds them: the groups with their text, and what is left over.
\<close>

fun fmt_regex :: "directive list \<Rightarrow> string \<Rightarrow> ((directive \<times> string) list \<times> string) list" where
  "fmt_regex [] s = [([], s)]"
| "fmt_regex (d # ds) s =
     concat (map (\<lambda>(t, r). map (\<lambda>(g, r'). ((d, t) # g, r')) (fmt_regex ds r)) (dir_regex d s))"

text \<open>Python's \<open>int(text)\<close> on a group: surrounding blanks are ignored, digits are decimal.\<close>

definition digit_val :: "char \<Rightarrow> nat" where
  "digit_val c = of_char c - 48"

definition py_int :: "string \<Rightarrow> nat" where
  "py_int t = foldl (\<lambda>n c. 10 * n + digit_val c) 0 (filter (\<lambda>c. c \<noteq> CHR '' '') t)"

text \<open>
  A \<open>datetime\<close> at midnight: only year, month and day are ever set or read. The
  constructor accepts years 1 to 9999 (\<open>MINYEAR\<close>, \<open>MAXYEAR\<close>) and days that exist in the
  month, and raises \<open>ValueError\<close> otherwise.
\<close>

record date =
  year :: nat
  month :: nat
  day :: nat

definition is_leap :: "nat \<Rightarrow> bool" where
  "is_leap y = (y mod 4 = 0 \<and> (y mod 100 \<noteq> 0 \<or> y mod 400 = 0))"

definition days_in_month :: "nat \<Rightarrow> nat \<Rightarrow> nat" where
  "days_in_month y m =
     (if m = 2 then (if is_leap y then 29 else 28)
      else if m = 4 \<or> m = 6 \<or> m = 9 \<or> m = 11 then 30 else 31)"

definition make_date :: "nat \<Rightarrow> nat \<Rightarrow> nat \<Rightarrow> date option" where
  "make_date y m d =
     (if 1 \<le> y \<and> y \<le> 9999 \<and> 1 \<le> m \<and> m \<le> 12 \<and> 1 \<le> d \<and> d \<le> days_in_month y m
      then Some \<lparr>year = y, month = m, day = d\<rparr> else None)"

text \<open>
  \<open>datetime.strptime(text, format)\<close>; \<open>None\<close> stands for \<open>ValueError\<close>, which is raised when
  the expression does not match, when the first match leaves text over ("unconverted data
  remains"), and when the numbers are no date. A directive absent from the format has the
  default 1900-01-01.
\<close>

definition group :: "directive \<Rightarrow> nat \<Rightarrow> (directive \<times> string) list \<Rightarrow> nat" where
  "group d dflt g = (case map_of g d of None \<Rightarrow> dflt | Some t \<Rightarrow> py_int t)"

definition strptime :: "string \<Rightarrow> directive list \<Rightarrow> date option" where
  "strptime s fmt =
     (case fmt_regex fmt s of
        [] \<Rightarrow> None
      | (g, rest) # _ \<Rightarrow>
          if rest \<noteq> [] then None
          else make_date (group Dir_Y 1900 g) (group Dir_m 1 g) (group Dir_d 1 g))"

text \<open>
  \<open>strftime\<close> goes through the C library: \<open>%d\<close> and \<open>%m\<close> are two digits, zero padded.
  \<open>%Y\<close> is the year in decimal; whether a year below 1000 is zero padded to four digits
  depends on the C library and the Python version, so it is the parameter \<open>pad\<close>.
\<close>

definition digit_char :: "nat \<Rightarrow> char" where
  "digit_char n = char_of (48 + n mod 10)"

fun zpad :: "nat \<Rightarrow> nat \<Rightarrow> string" where
  "zpad 0 n = []"
| "zpad (Suc k) n = zpad k (n div 10) @ [digit_char n]"

fun dec :: "nat \<Rightarrow> string" where
  "dec n = (if n < 10 then [digit_char n] else dec (n div 10) @ [digit_char n])"

declare dec.simps [simp del]

fun dir_format :: "bool \<Rightarrow> date \<Rightarrow> directive \<Rightarrow> string" where
  "dir_format pad dt Dir_Y = (if pad \<and> year dt < 1000 then zpad 4 (year dt) else dec (year dt))"
| "dir_format pad dt Dir_m = zpad 2 (month dt)"
| "dir_format pad dt Dir_d = zpad 2 (day dt)"
| "dir_format pad dt (Lit c) = [c]"

definition strftime :: "bool \<Rightarrow> date \<Rightarrow> directive list \<Rightarrow> string" where
  "strftime pad dt fmt = concat (map (dir_format pad dt) fmt)"

text \<open>The formats \<open>'%Y-%m-%d'\<close> and \<open>'%d/%m/%Y'\<close>.\<close>

definition fmt_Ymd :: "directive list" where
  "fmt_Ymd = [Dir_Y, Lit CHR ''-'', Dir_m, Lit CHR ''-'', Dir_d]"

definition fmt_dmY :: "directive list" where
  "fmt_dmY = [Dir_d, Lit CHR ''/'', Dir_m, Lit CHR ''/'', Dir_Y]"

section \<open>The payload formatter\<close>

text \<open>
  \<open>format_payload_for_get_request(args)\<close>. \<open>vars(args)\<close> is the namespace's own attribute
  dictionary, not a copy: \<open>payload\<close> and \<open>args\<close> are the same object, so every assignment
  to \<open>payload\<close> is written to the store at \<open>args\<close>, and the address returned is \<open>args\<close>.
  Reading an attribute the namespace lacks raises \<open>AttributeError\<close>, a missing key
  \<open>KeyError\<close>, and \<open>strptime\<close> of a value that is no string \<open>TypeError\<close>; none is caught.
\<close>

definition store :: "addr \<Rightarrow> pydict \<Rightarrow> world \<Rightarrow> world" where
  "store a d w = w\<lparr>ns := (ns w)(a := d)\<rparr>"

definition format_payload_for_get_request ::
    "bool \<Rightarrow> addr \<Rightarrow> world \<Rightarrow> (failure + addr) \<times> world" where
  "format_payload_for_get_request pad args w =
     (let payload = args in
      case map_of (ns w args) ''daysInDestination'' of
        None \<Rightarrow> (Inl (Uncaught AttributeError), w)
      | Some n \<Rightarrow>
          let w1 = (if n = PyNone
                    then let w' = store payload (AList.update ''typeFlight'' (PyStr ''oneway'') (ns w payload)) w
                         in store payload (AList.delete ''daysInDestination'' (ns w' payload)) w'
                    else store payload (AList.update ''typeFlight'' (PyStr ''return'') (ns w payload)) w)
          in (case map_of (ns w1 payload) ''dateFrom'' of
                None \<Rightarrow> (Inl (Uncaught KeyError), w1)
              | Some (PyStr s) \<Rightarrow>
                  (case strptime s fmt_Ymd of
                     None \<Rightarrow>
                       (Inl (SysExit 2),
                        print ''Incorrect date format. Enter date of departure as YYYY-MM-DD.'' w1)
                   | Some dt \<Rightarrow>
                       (Inr payload,
                        store payload
                          (AList.update ''dateFrom'' (PyStr (strftime pad dt fmt_dmY)) (ns w1 payload)) w1))
              | Some _ \<Rightarrow> (Inl (Uncaught TypeError), w1)))"

section \<open>Calls that may not return\<close>

text \<open>
  A call takes the world and gives back a failure or a value, with the world as it has
  become. \<open>bind\<close> runs one call after another and stops at the first failure, as
  \<open>sys.exit\<close> and an uncaught exception do; \<open>raise_or\<close> turns a lookup that raised into an
  uncaught exception.
\<close>

type_synonym 'a call = "world \<Rightarrow> (failure + 'a) \<times> world"

definition bind :: "'a call \<Rightarrow> ('a \<Rightarrow> 'b call) \<Rightarrow> 'b call" where
  "bind m f w = (case m w of (Inl e, w') \<Rightarrow> (Inl e, w') | (Inr x, w') \<Rightarrow> f x w')"

definition return :: "'a \<Rightarrow> 'a call" where
  "return x w = (Inr x, w)"

definition sys_exit :: "int \<Rightarrow> 'a call" where
  "sys_exit n w = (Inl (SysExit n), w)"

definition raise_or :: "exn + 'a \<Rightarrow> 'a call" where
  "raise_or r w = (case r of Inl e \<Rightarrow> (Inl (Uncaught e), w) | Inr x \<Rightarrow> (Inr x, w))"

section \<open>Requests and responses\<close>

text \<open>
  \<open>request_server_response(request, url, params, json_payload)\<close> against a network \<open>net\<close>
  that answers each call. Only \<open>ConnectionError\<close> is caught.
\<close>

definition request_server_response ::
    "(request \<Rightarrow> reply) \<Rightarrow> verb \<Rightarrow> string \<Rightarrow> pydict option \<Rightarrow> json option \<Rightarrow> response call" where
  "request_server_response net request url params json_payload w =
     (let rq = Request request url params json_payload;
          w1 = w\<lparr>sent := sent w @ [rq]\<rparr>
      in case net rq of
           Response r \<Rightarrow> (Inr r, w1)
         | ConnectionError err \<Rightarrow>
             sys_exit 1
               (print err (print ''No response from server. Check your internet connection.'' w1))
         | OtherError \<Rightarrow> (Inl (Uncaught RequestException), w1))"

text \<open>\<open>str(response)\<close> is \<open><Response [code]>\<close>.\<close>

definition str_response :: "response \<Rightarrow> string" where
  "str_response r = ''<Response ['' @ dec (status_code r) @ '']>''"

definition newline :: string where
  "newline = [CHR 0x0A]"

definition parse_json :: "response \<Rightarrow> json call" where
  "parse_json json_response w =
     (case decoded json_response of
        Some j \<Rightarrow> (Inr j, w)
      | None \<Rightarrow>
          sys_exit 1
            (print (''Invalid response from server. Server is probably offline.'' @ newline
                    @ ''Server responded with '' @ str_response json_response) w))"

text \<open>
  Subscripts on decoded JSON. \<open>obj[key]\<close> with a string key: a dictionary gives the value
  or raises \<open>KeyError\<close>; a list, a string, a number, a boolean and \<open>None\<close> raise
  \<open>TypeError\<close>. \<open>obj[0]\<close>: a list or string gives its first element or raises \<open>IndexError\<close>
  when empty; a dictionary raises \<open>KeyError\<close>, since its keys are strings; the rest raise
  \<open>TypeError\<close>.
\<close>

definition getitem :: "json \<Rightarrow> string \<Rightarrow> exn + json" where
  "getitem obj key =
     (case obj of
        JObj kvs \<Rightarrow> (case map_of kvs key of None \<Rightarrow> Inl KeyError | Some v \<Rightarrow> Inr v)
      | _ \<Rightarrow> Inl TypeError)"

definition getitem0 :: "json \<Rightarrow> exn + json" where
  "getitem0 obj =
     (case obj of
        JList xs \<Rightarrow> (case xs of [] \<Rightarrow> Inl IndexError | x # _ \<Rightarrow> Inr x)
      | JStr s \<Rightarrow> (case s of [] \<Rightarrow> Inl IndexError | c # _ \<Rightarrow> Inr (JStr [c]))
      | JObj kvs \<Rightarrow> Inl KeyError
      | _ \<Rightarrow> Inl TypeError)"

text \<open>
  \<open>value == 0\<close> in Python: true of the integer \<open>0\<close>, of a float zero, and of \<open>False\<close>
  (a boolean is an integer); false of everything else.
\<close>

fun eq_zero :: "json \<Rightarrow> bool" where
  "eq_zero (JInt n) = (n = 0)"
| "eq_zero (JBool b) = (\<not> b)"
| "eq_zero (JFloat (Finite m e)) = (m = 0)"
| "eq_zero _ = False"

section \<open>Search and booking\<close>

definition no_flights_message :: string where
  "no_flights_message =
     ''No flights found. Check spelling of parameters. Use -h or --help for more information.''"

definition find_flight :: "(request \<Rightarrow> reply) \<Rightarrow> addr \<Rightarrow> json call" where
  "find_flight net payload =
     bind (\<lambda>w. request_server_response net requests_get ''https://api.skypicker.com/flights?''
                 (Some (ns w payload)) None w)
       (\<lambda>flight_search.
     bind (parse_json flight_search)
       (\<lambda>flight_search_results.
     bind (raise_or (getitem flight_search_results ''_results''))
       (\<lambda>n.
          if eq_zero n then (\<lambda>w. sys_exit 1 (print no_flights_message w))
          else
     bind (raise_or (getitem flight_search_results ''data''))
       (\<lambda>data.
     bind (raise_or (getitem0 data))
       (\<lambda>first.
          raise_or (getitem first ''booking_token''))))))"

text \<open>\<open>str(value)\<close>: a string is itself, anything else is shown by \<open>repr\<close>.\<close>

definition py_str :: "(json \<Rightarrow> string) \<Rightarrow> json \<Rightarrow> string" where
  "py_str repr v = (case v of JStr s \<Rightarrow> s | _ \<Rightarrow> repr v)"

text \<open>
  \<open>book_flight(token, pass_info, currency_name)\<close>. \<open>repr\<close> is Python's \<open>repr\<close> of decoded
  JSON. \<open>booking.json()\<close> is called a second time for the \<open>pnr\<close>; it decodes the same
  body, so it gives \<open>booking_confirmation\<close> again.
\<close>

definition book_flight ::
    "(request \<Rightarrow> reply) \<Rightarrow> (json \<Rightarrow> string) \<Rightarrow> json \<Rightarrow> json \<Rightarrow> string \<Rightarrow> json call" where
  "book_flight net repr token pass_info currency_name =
     (let booking_payload =
            JObj [(''currency'', JStr currency_name), (''booking_token'', token),
                  (''passengers'', pass_info)]
      in
     bind (request_server_response net requests_post ''http://37.139.6.125:8080/booking''
             None (Some booking_payload))
       (\<lambda>booking.
          case decoded booking of
            None \<Rightarrow>
              (\<lambda>w. sys_exit 1
                 (print (''Invalid response from booking server.'' @ newline
                         @ ''Server responded with '' @ str_response booking) w))
          | Some booking_confirmation \<Rightarrow>
     bind (raise_or (getitem booking_confirmation ''status''))
       (\<lambda>status.
          if status = JStr ''confirmed'' then raise_or (getitem booking_confirmation ''pnr'')
          else (\<lambda>w. sys_exit 1
                  (print (''Booking not successful'' @ newline @ py_str repr booking_confirmation) w)))))"

section \<open>The argument parser\<close>

text \<open>
  \<open>create_arg_parser()\<close> declares eight actions: the help action that every
  \<open>ArgumentParser\<close> has, three required options with one argument, and two mutually
  exclusive groups, \<open>--one-way\<close> against \<open>--return N\<close> and \<open>--cheapest\<close> against
  \<open>--shortest\<close>. \<open>option_string_actions\<close> is the parser's table from option string to
  action, in the order of declaration. How the command line is read follows \<open>argparse\<close> as
  shipped with Python 3.6: \<open>_parse_optional\<close>, \<open>_get_option_tuples\<close>, \<open>consume_optional\<close>,
  \<open>take_action\<close> and \<open>parse_args\<close>, for a parser without positional arguments.
\<close>

datatype action = Help | Date | From | To | OneWay | Return | Cheapest | Shortest

definition option_string_actions :: "(string \<times> action) list" where
  "option_string_actions =
     [(''-h'', Help), (''--help'', Help), (''--date'', Date), (''--from'', From), (''--to'', To),
      (''--one-way'', OneWay), (''--return'', Return), (''--cheapest'', Cheapest),
      (''--shortest'', Shortest)]"

text \<open>Actions with \<open>nargs=None\<close> take one argument; \<open>store_const\<close> and help take none.\<close>

fun takes_arg :: "action \<Rightarrow> bool" where
  "takes_arg Date = True"
| "takes_arg From = True"
| "takes_arg To = True"
| "takes_arg Return = True"
| "takes_arg _ = False"

text \<open>The options declared with \<open>required=True\<close>.\<close>

fun required :: "action \<Rightarrow> bool" where
  "required Date = True"
| "required From = True"
| "required To = True"
| "required _ = False"

text \<open>The other members of the mutually exclusive group of an action.\<close>

fun conflicts :: "action \<Rightarrow> action list" where
  "conflicts OneWay = [Return]"
| "conflicts Return = [OneWay]"
| "conflicts Cheapest = [Shortest]"
| "conflicts Shortest = [Cheapest]"
| "conflicts _ = []"

text \<open>
  The namespace before any argument is read: every destination with its default, in the
  order of declaration (\<open>sort\<close> has the default of \<open>--cheapest\<close>, declared first).
\<close>

definition defaults :: pydict where
  "defaults =
     [(''dateFrom'', PyNone), (''flyFrom'', PyNone), (''to'', PyNone), (''typeFlight'', PyNone),
      (''daysInDestination'', PyNone), (''sort'', PyStr ''price'')]"

subsection \<open>Classifying one argument string\<close>

definition startswith :: "string \<Rightarrow> string \<Rightarrow> bool" where
  "startswith s p = (take (length p) s = p)"

text \<open>\<open>s.split('=', 1)\<close> for a string that contains \<open>=\<close>.\<close>

definition split_eq :: "string \<Rightarrow> string \<times> string" where
  "split_eq s = (takeWhile (\<lambda>c. c \<noteq> CHR ''='') s, tl (dropWhile (\<lambda>c. c \<noteq> CHR ''='') s))"

text \<open>
  The parser's test for a negative number, \<open>^-\d+$|^-\d*\.\d+$\<close>, where \<open>$\<close> also matches
  before a final newline.
\<close>

definition negative_number_like :: "string \<Rightarrow> bool" where
  "negative_number_like s =
     (case s of
        [] \<Rightarrow> False
      | c # r \<Rightarrow>
          c = CHR ''-'' \<and>
          (let r' = (if r \<noteq> [] \<and> last r = CHR 0x0A then butlast r else r);
               ds = takeWhile is_digit r';
               rest = dropWhile is_digit r'
           in (ds \<noteq> [] \<and> rest = []) \<or>
              (case rest of
                 [] \<Rightarrow> False
               | d # fr \<Rightarrow> d = CHR ''.'' \<and> fr \<noteq> [] \<and> list_all is_digit fr)))"

text \<open>
  \<open>_get_option_tuples\<close>, called for a string of at least two characters that starts with
  \<open>-\<close>: the options it abbreviates. After \<open>--\<close> any prefix of an option string counts, with
  an explicit argument after \<open>=\<close>; after a single \<open>-\<close> the first two characters may be a
  short option with the rest as its explicit argument.
\<close>

definition get_option_tuples :: "string \<Rightarrow> (action \<times> string \<times> string option) list" where
  "get_option_tuples option_string =
     (if take 2 option_string = ''--''
      then
        let (option_prefix, explicit_arg) =
              (if CHR ''='' \<in> set option_string
               then (fst (split_eq option_string), Some (snd (split_eq option_string)))
               else (option_string, None))
        in concat (map (\<lambda>(os, a). if startswith os option_prefix then [(a, os, explicit_arg)] else [])
                     option_string_actions)
      else
        let short_option_prefix = take 2 option_string;
            short_explicit_arg = drop 2 option_string
        in concat (map (\<lambda>(os, a).
                     if os = short_option_prefix then [(a, os, Some short_explicit_arg)]
                     else if startswith os option_string then [(a, os, None)]
                     else [])
                   option_string_actions))"

text \<open>
  \<open>_parse_optional\<close>: an argument string is a positional, or an option (the action, or none
  when no option of that name exists; the option string; the explicit argument), or an
  ambiguous abbreviation, which is a usage error.
\<close>

datatype tok =
    Arg
  | Sep
  | Opt "action option" string "string option"
  | Ambiguous

definition parse_optional :: "string \<Rightarrow> tok" where
  "parse_optional arg_string =
     (if arg_string = [] then Arg
      else if hd arg_string \<noteq> CHR ''-'' then Arg
      else
        (case map_of option_string_actions arg_string of
           Some a \<Rightarrow> Opt (Some a) arg_string None
         | None \<Rightarrow>
             if length arg_string = 1 then Arg
             else
               (case (if CHR ''='' \<in> set arg_string
                      then map_of option_string_actions (fst (split_eq arg_string))
                      else None) of
                  Some a \<Rightarrow> Opt (Some a) (fst (split_eq arg_string)) (Some (snd (split_eq arg_string)))
                | None \<Rightarrow>
                    (case get_option_tuples arg_string of
                       [] \<Rightarrow>
                         if negative_number_like arg_string then Arg
                         else if CHR '' '' \<in> set arg_string then Arg
                         else Opt None arg_string None
                     | [(a, os, e)] \<Rightarrow> Opt (Some a) os e
                     | _ \<Rightarrow> Ambiguous))))"

text \<open>Everything after the first \<open>--\<close> is a positional.\<close>

fun classify :: "string list \<Rightarrow> (string \<times> tok) list" where
  "classify [] = []"
| "classify (s # ss) =
     (if s = ''--'' then (s, Sep) # map (\<lambda>s'. (s', Arg)) ss
      else (s, parse_optional s) # classify ss)"

subsection \<open>Consuming the arguments\<close>

record pstate =
  namespace :: pydict
  seen_actions :: "action list"
  extras :: "string list"

text \<open>
  Calling an action on its converted values. Help prints the help text and exits with
  code 0.
\<close>

fun call_action :: "action \<Rightarrow> pyval \<Rightarrow> pydict \<Rightarrow> failure + pydict" where
  "call_action Help v d = Inl (SysExit 0)"
| "call_action Date v d = Inr (AList.update ''dateFrom'' v d)"
| "call_action From v d = Inr (AList.update ''flyFrom'' v d)"
| "call_action To v d = Inr (AList.update ''to'' v d)"
| "call_action OneWay v d = Inr (AList.update ''typeFlight'' (PyStr ''oneway'') d)"
| "call_action Return v d = Inr (AList.update ''daysInDestination'' v d)"
| "call_action Cheapest v d = Inr (AList.update ''sort'' (PyStr ''price'') d)"
| "call_action Shortest v d = Inr (AList.update ''sort'' (PyStr ''duration'') d)"

text \<open>
  \<open>_get_values\<close>: the argument of \<open>--return\<close> goes through \<open>int\<close>, given as \<open>int_of\<close> with
  \<open>None\<close> for \<open>ValueError\<close> (a usage error); other arguments stay strings; an action
  without argument gets the empty list, here \<open>PyNone\<close>, which it ignores.
\<close>

definition get_values :: "(string \<Rightarrow> int option) \<Rightarrow> action \<Rightarrow> string list \<Rightarrow> pyval option" where
  "get_values int_of action arg_strings =
     (case arg_strings of
        [] \<Rightarrow> Some PyNone
      | s # _ \<Rightarrow> if action = Return then map_option PyInt (int_of s) else Some (PyStr s))"

text \<open>
  \<open>take_action\<close>: convert the values, refuse an action whose group partner was seen
  before (every value this parser produces counts as present, none is the default
  object), then call the action. Every usage error exits with code 2.
\<close>

definition take_action ::
    "(string \<Rightarrow> int option) \<Rightarrow> action \<Rightarrow> string list \<Rightarrow> pstate \<Rightarrow> failure + pstate" where
  "take_action int_of action argument_strings st =
     (case get_values int_of action argument_strings of
        None \<Rightarrow> Inl (SysExit 2)
      | Some argument_values \<Rightarrow>
          if list_ex (\<lambda>conflict_action. conflict_action \<in> set (seen_actions st)) (conflicts action)
          then Inl (SysExit 2)
          else
            (case call_action action argument_values (namespace st) of
               Inl f \<Rightarrow> Inl f
             | Inr d \<Rightarrow> Inr (st\<lparr>namespace := d, seen_actions := action # seen_actions st\<rparr>)))"

text \<open>
  A single-dash option without argument that carries an explicit argument: the characters
  of the argument are read as further single-dash options. The only one is \<open>-h\<close>, so a tail
  of \<open>h\<close>s ends in the help action, any other character is a usage error, and the empty
  tail (from \<open>-h=\<close>) makes \<open>explicit_arg[0]\<close> raise \<open>IndexError\<close>.
\<close>

fun single_dash_tail :: "string \<Rightarrow> failure" where
  "single_dash_tail [] = Uncaught IndexError"
| "single_dash_tail (c # e) =
     (if c = CHR ''h'' then (if e = [] then SysExit 0 else single_dash_tail e) else SysExit 2)"

text \<open>
  The loop of \<open>_parse_known_args\<close> over the classified arguments. An option takes its
  explicit argument, or the next string if that is a positional; what no option takes
  goes to \<open>extras\<close>.
\<close>

fun consume :: "(string \<Rightarrow> int option) \<Rightarrow> pstate \<Rightarrow> (string \<times> tok) list \<Rightarrow> failure + pstate" where
  "consume int_of st [] = Inr st"
| "consume int_of st ((s, Opt (Some action) option_string (Some explicit_arg)) # rest) =
     (if takes_arg action
      then (case take_action int_of action [explicit_arg] st of
              Inl f \<Rightarrow> Inl f
            | Inr st' \<Rightarrow> consume int_of st' rest)
      else if take 2 option_string \<noteq> ''--'' then Inl (single_dash_tail explicit_arg)
      else Inl (SysExit 2))"
| "consume int_of st ((s, Opt (Some action) option_string None) # rest) =
     (if takes_arg action
      then (case rest of
              (s', Arg) # rest' \<Rightarrow>
                (case take_action int_of action [s'] st of
                   Inl f \<Rightarrow> Inl f
                 | Inr st' \<Rightarrow> consume int_of st' rest')
            | _ \<Rightarrow> Inl (SysExit 2))
      else (case take_action int_of action [] st of
              Inl f \<Rightarrow> Inl f
            | Inr st' \<Rightarrow> consume int_of st' rest))"
| "consume int_of st ((s, t) # rest) = consume int_of (st\<lparr>extras := extras st @ [s]\<rparr>) rest"

text \<open>
  \<open>parse_known_args\<close> and \<open>parse_args\<close>: an ambiguous abbreviation is reported while the
  arguments are classified; after the loop a missing required option and then any
  unrecognised argument are usage errors.
\<close>

definition parse_known_args :: "(string \<Rightarrow> int option) \<Rightarrow> string list \<Rightarrow> failure + pstate" where
  "parse_known_args int_of args =
     (let toks = classify args in
      if list_ex (\<lambda>(s, t). t = Ambiguous) toks then Inl (SysExit 2)
      else
        (case consume int_of \<lparr>namespace = defaults, seen_actions = [], extras = []\<rparr> toks of
           Inl f \<Rightarrow> Inl f
         | Inr st \<Rightarrow>
             if list_ex (\<lambda>a. required a \<and> a \<notin> set (seen_actions st))
                  (map snd option_string_actions)
             then Inl (SysExit 2)
             else Inr st))"

definition alloc :: "pydict \<Rightarrow> addr call" where
  "alloc d w = (Inr (next_addr w), w\<lparr>ns := (ns w)(next_addr w := d), next_addr := Suc (next_addr w)\<rparr>)"

definition parse_args :: "(string \<Rightarrow> int option) \<Rightarrow> string list \<Rightarrow> addr call" where
  "parse_args int_of args w =
     (case parse_known_args int_of args of
        Inl f \<Rightarrow> (Inl f, w)
      | Inr st \<Rightarrow> if extras st \<noteq> [] then sys_exit 2 w else alloc (namespace st) w)"

section \<open>The program\<close>

definition passenger_info :: json where
  "passenger_info =
     JObj [(''title'', JStr ''Mr''), (''firstName'', JStr ''A''), (''documentID'', JStr ''0''),
           (''birthday'', JStr ''2016-05-20''), (''email'', JStr ''a@a.com''),
           (''lastName'', JStr ''B'')]"

definition currency :: string where
  "currency = ''EUR''"

definition main ::
    "bool \<Rightarrow> (json \<Rightarrow> string) \<Rightarrow> (string \<Rightarrow> int option) \<Rightarrow> (request \<Rightarrow> reply) \<Rightarrow> string list \<Rightarrow> unit call" where
  "main pad repr int_of net argv =
     bind (parse_args int_of argv)
       (\<lambda>args.
     bind (format_payload_for_get_request pad args)
       (\<lambda>search_payload.
     bind (find_flight net search_payload)
       (\<lambda>booking_token.
     bind (book_flight net repr booking_token passenger_info currency)
       (\<lambda>pnr_number w. return () (print (py_str repr pnr_number) w)))))"

text \<open>The two requests a run can make.\<close>

definition search_request :: "pydict \<Rightarrow> request" where
  "search_request params =
     Request requests_get ''https://api.skypicker.com/flights?'' (Some params) None"

definition booking_request :: "json \<Rightarrow> json \<Rightarrow> string \<Rightarrow> request" where
  "booking_request token pass_info currency_name =
     Request requests_post ''http://37.139.6.125:8080/booking'' None
       (Some (JObj [(''currency'', JStr currency_name), (''booking_token'', token),
                    (''passengers'', pass_info)]))"

section \<open>Dates as the specification words them\<close>

text \<open>
  The specification speaks of valid ISO-8601 dates in the form \<open>YYYY-MM-DD\<close> and of their
  \<open>DD/MM/YYYY\<close> form. \<open>iso8601_date\<close> follows those words: ISO 8601 has the years 0000 to
  9999, months 01 to 12 and the days the month has in the proleptic Gregorian calendar.
  \<open>iso_text\<close> and \<open>dmy_text\<close> write a date in the two forms.
\<close>

definition iso8601_date :: "nat \<Rightarrow> nat \<Rightarrow> nat \<Rightarrow> bool" where
  "iso8601_date y m d = (y \<le> 9999 \<and> 1 \<le> m \<and> m \<le> 12 \<and> 1 \<le> d \<and> d \<le> days_in_month y m)"

definition iso_text :: "nat \<Rightarrow> nat \<Rightarrow> nat \<Rightarrow> string" where
  "iso_text y m d = zpad 4 y @ ''-'' @ zpad 2 m @ ''-'' @ zpad 2 d"

definition dmy_text :: "nat \<Rightarrow> nat \<Rightarrow> nat \<Rightarrow> string" where
  "dmy_text y m d = zpad 2 d @ ''/'' @ zpad 2 m @ ''/'' @ zpad 4 y"

section \<open>Notions used to reason about the parser\<close>

text \<open>
  An argument string asks for help when the parser reads it as the help action: \<open>-h\<close>,
  \<open>--help\<close>, an abbreviation such as \<open>--he\<close>, or one of these with an explicit argument.
  A classified argument is plain when it is not an option, or is an option other than help
  written with two dashes. \<open>exclusive\<close> says that no two of the actions seen so far belong
  to the same mutually exclusive group.
\<close>

definition asks_help :: "string \<Rightarrow> bool" where
  "asks_help s = (case parse_optional s of Opt (Some Help) os e \<Rightarrow> True | _ \<Rightarrow> False)"

fun plain :: "tok \<Rightarrow> bool" where
  "plain (Opt (Some a) os e) = (a \<noteq> Help \<and> take 2 os = ''--'')"
| "plain _ = True"

definition exclusive :: "action list \<Rightarrow> bool" where
  "exclusive seen = list_all (\<lambda>x. list_all (\<lambda>y. y \<notin> set (conflicts x)) seen) seen"

section \<open>Sample data\<close>

text \<open>
  Concrete inputs on which the theorems below are evaluated: a namespace as the parser
  leaves it, a world holding it at address 0, an empty world, a network that answers the
  search and the booking with fixed replies, \<open>int\<close> on plain digit strings, and a \<open>repr\<close>
  that writes \<open>None\<close>, booleans, integers, strings of plain characters, and lists and
  dictionaries of these as Python does (a float is only marked).
\<close>

definition sample_args :: "pyval \<Rightarrow> string \<Rightarrow> pydict" where
  "sample_args days d =
     [(''dateFrom'', PyStr d), (''flyFrom'', PyStr ''NYC''), (''to'', PyStr ''LON''),
      (''typeFlight'', PyNone), (''daysInDestination'', days), (''sort'', PyStr ''price'')]"

definition sample_world :: "pydict \<Rightarrow> world" where
  "sample_world d =
     \<lparr>ns = (\<lambda>a. if a = 0 then d else []), next_addr = 1, printed = [], sent = []\<rparr>"

definition empty_world :: world where
  "empty_world = \<lparr>ns = (\<lambda>a. []), next_addr = 0, printed = [], sent = []\<rparr>"

definition sample_net :: "reply \<Rightarrow> reply \<Rightarrow> request \<Rightarrow> reply" where
  "sample_net search booking rq =
     (case rq of Request m url params body \<Rightarrow>
        (case m of requests_get \<Rightarrow> search | requests_post \<Rightarrow> booking))"

definition ok :: "json \<Rightarrow> reply" where
  "ok j = Response \<lparr>status_code = 200, decoded = Some j\<rparr>"

definition int_of_digits :: "string \<Rightarrow> int option" where
  "int_of_digits s = (if s \<noteq> [] \<and> list_all is_digit s then Some (int (py_int s)) else None)"

fun commas :: "string list \<Rightarrow> string" where
  "commas [] = []"
| "commas [x] = x"
| "commas (x # y # zs) = x @ '', '' @ commas (y # zs)"

fun sample_repr :: "json \<Rightarrow> string" where
  "sample_repr JNull = ''None''"
| "sample_repr (JBool b) = (if b then ''True'' else ''False'')"
| "sample_repr (JInt n) = (if n < 0 then ''-'' @ dec (nat (- n)) else dec (nat n))"
| "sample_repr (JFloat f) = ''<float>''"
| "sample_repr (JStr s) = [CHR 0x27] @ s @ [CHR 0x27]"
| "sample_repr (JList xs) = ''['' @ commas (map sample_repr xs) @ '']''"
| "sample_repr (JObj kvs) =
     ''{'' @ commas (map (\<lambda>kv. [CHR 0x27] @ fst kv @ [CHR 0x27] @ '': '' @ sample_repr (snd kv)) kvs)
     @ ''}''"

definition sample_argv :: "string list" where
  "sample_argv = [''--date'', ''2024-06-01'', ''--from'', ''NYC'', ''--to'', ''LON'', ''--return'', ''10'']"

definition sample_search :: json where
  "sample_search =
     JObj [(''_results'', JInt 2),
           (''data'', JList [JObj [(''booking_token'', JStr ''TOK123'')],
                             JObj [(''booking_token'', JStr ''TOK456'')]])]"

section \<open>Dictionaries, the store and sequencing\<close>

lemma map_of_update_other: "k' \<noteq> k \<Longrightarrow> map_of (AList.update k v d) k' = map_of d k'"
  by (simp add: AList.update_conv')

lemma map_of_update_same: "map_of (AList.update k v d) k = Some v"
  by (simp add: AList.update_conv')

lemma map_of_delete_other: "k' \<noteq> k \<Longrightarrow> map_of (AList.delete k d) k' = map_of d k'"
  by (simp add: AList.delete_conv')

lemma map_of_delete_same: "map_of (AList.delete k d) k = None"
  by (simp add: AList.delete_conv')

lemmas dict_simps =
  map_of_update_other map_of_update_same map_of_delete_other map_of_delete_same

lemma ns_store: "ns (store a d w) a' = (if a' = a then d else ns w a')"
  by (simp add: store_def)

lemma store_frame [simp]:
  "printed (store a d w) = printed w"
  "sent (store a d w) = sent w"
  "next_addr (store a d w) = next_addr w"
  by (simp_all add: store_def)

lemma run_pair: "fst p = r \<Longrightarrow> p = (r, snd p)"
  by (cases p) simp

section \<open>The payload has one of two shapes\<close>

text \<open>
  C1. Whenever \<open>format_payload_for_get_request\<close> returns a payload: if the namespace had
  \<open>daysInDestination = None\<close>, the payload has \<open>typeFlight = "oneway"\<close> and no
  \<open>daysInDestination\<close> key; if it had a value \<open>n\<close>, the payload has \<open>typeFlight = "return"\<close>
  and \<open>daysInDestination = n\<close>.
\<close>

theorem payload_shape:
  assumes "format_payload_for_get_request pad args w = (Inr payload, w')"
  shows "(map_of (ns w args) ''daysInDestination'' = Some PyNone \<longrightarrow>
            map_of (ns w' payload) ''typeFlight'' = Some (PyStr ''oneway'') \<and>
            map_of (ns w' payload) ''daysInDestination'' = None) \<and>
         (\<forall>n. n \<noteq> PyNone \<and> map_of (ns w args) ''daysInDestination'' = Some n \<longrightarrow>
            map_of (ns w' payload) ''typeFlight'' = Some (PyStr ''return'') \<and>
            map_of (ns w' payload) ''daysInDestination'' = Some n)"
  using assms
  by (auto simp: format_payload_for_get_request_def Let_def ns_store dict_simps
           split: option.splits pyval.splits if_splits)

theorem payload_shape_witness:
  "fst (format_payload_for_get_request False 0 (sample_world (sample_args (PyInt 7) ''2024-06-01'')))
     = Inr 0 \<and>
   map_of (ns (snd (format_payload_for_get_request False 0
                      (sample_world (sample_args (PyInt 7) ''2024-06-01'')))) 0) ''typeFlight''
     = Some (PyStr ''return'') \<and>
   map_of (ns (snd (format_payload_for_get_request False 0
                      (sample_world (sample_args (PyInt 7) ''2024-06-01'')))) 0) ''daysInDestination''
     = Some (PyInt 7) \<and>
   fst (format_payload_for_get_request False 0 (sample_world (sample_args PyNone ''2024-06-01'')))
     = Inr 0 \<and>
   map_of (ns (snd (format_payload_for_get_request False 0
                      (sample_world (sample_args PyNone ''2024-06-01'')))) 0) ''typeFlight''
     = Some (PyStr ''oneway'') \<and>
   map_of (ns (snd (format_payload_for_get_request False 0
                      (sample_world (sample_args PyNone ''2024-06-01'')))) 0) ''daysInDestination''
     = None"
proof -
  let ?wr = "sample_world (sample_args (PyInt 7) ''2024-06-01'')"
  let ?wo = "sample_world (sample_args PyNone ''2024-06-01'')"
  have r: "fst (format_payload_for_get_request False 0 ?wr) = Inr 0"
    by code_simp
  have o: "fst (format_payload_for_get_request False 0 ?wo) = Inr 0"
    by code_simp
  have dr: "map_of (ns ?wr 0) ''daysInDestination'' = Some (PyInt 7)"
    by code_simp
  have do: "map_of (ns ?wo 0) ''daysInDestination'' = Some PyNone"
    by code_simp
  show ?thesis
    using payload_shape [OF run_pair [OF r]] payload_shape [OF run_pair [OF o]] r o dr do
    by simp
qed



section \<open>Search and booking, unfolded\<close>

lemma request_connection_error:
  "net (Request m url p j) = ConnectionError err \<Longrightarrow>
   request_server_response net m url p j w =
     (Inl (SysExit 1),
      w\<lparr>sent := sent w @ [Request m url p j],
        printed := printed w @ [''No response from server. Check your internet connection.'', err]\<rparr>)"
  by (simp add: request_server_response_def Let_def sys_exit_def print_def)

lemma find_flight_decoded:
  assumes "net (search_request (ns w payload)) = Response r" and "decoded r = Some j"
  shows "find_flight net payload w =
     (let w1 = w\<lparr>sent := sent w @ [search_request (ns w payload)]\<rparr> in
      case getitem j ''_results'' of
        Inl e \<Rightarrow> (Inl (Uncaught e), w1)
      | Inr n \<Rightarrow>
          if eq_zero n then (Inl (SysExit 1), w1\<lparr>printed := printed w1 @ [no_flights_message]\<rparr>)
          else (case getitem j ''data'' of
                  Inl e \<Rightarrow> (Inl (Uncaught e), w1)
                | Inr d \<Rightarrow> (case getitem0 d of
                     Inl e \<Rightarrow> (Inl (Uncaught e), w1)
                   | Inr f \<Rightarrow> (case getitem f ''booking_token'' of
                        Inl e \<Rightarrow> (Inl (Uncaught e), w1)
                      | Inr t \<Rightarrow> (Inr t, w1)))))"
  using assms
  by (simp add: find_flight_def search_request_def request_server_response_def bind_def Let_def
        parse_json_def raise_or_def sys_exit_def print_def split: sum.splits)

lemma book_flight_decoded:
  assumes "net (booking_request token pass_info cur) = Response r" and "decoded r = Some j"
  shows "book_flight net repr token pass_info cur w =
     (let w1 = w\<lparr>sent := sent w @ [booking_request token pass_info cur]\<rparr> in
      case getitem j ''status'' of
        Inl e \<Rightarrow> (Inl (Uncaught e), w1)
      | Inr st \<Rightarrow>
          if st = JStr ''confirmed''
          then (case getitem j ''pnr'' of Inl e \<Rightarrow> (Inl (Uncaught e), w1) | Inr p \<Rightarrow> (Inr p, w1))
          else (Inl (SysExit 1),
                w1\<lparr>printed := printed w1 @ [''Booking not successful'' @ newline @ py_str repr j]\<rparr>))"
  using assms
  by (simp add: book_flight_def booking_request_def request_server_response_def bind_def Let_def
        raise_or_def sys_exit_def print_def split: sum.splits)

lemma parse_args_frame:
  "parse_args int_of argv w = (r, w') \<Longrightarrow> printed w' = printed w \<and> sent w' = sent w"
  by (auto simp: parse_args_def sys_exit_def alloc_def split: sum.splits if_splits)

lemma format_payload_frame:
  "format_payload_for_get_request pad args w = (Inr payload, w') \<Longrightarrow>
   printed w' = printed w \<and> sent w' = sent w \<and> next_addr w' = next_addr w \<and> payload = args"
  by (auto simp: format_payload_for_get_request_def Let_def
           split: option.splits pyval.splits if_splits)

lemma main_find_fails:
  "parse_args int_of argv w = (Inr args, w1) \<Longrightarrow>
   format_payload_for_get_request pad args w1 = (Inr payload, w2) \<Longrightarrow>
   find_flight net payload w2 = (Inl f, w3) \<Longrightarrow>
   main pad repr int_of net argv w = (Inl f, w3)"
  by (simp add: main_def bind_def)

lemma main_book_fails:
  "parse_args int_of argv w = (Inr args, w1) \<Longrightarrow>
   format_payload_for_get_request pad args w1 = (Inr payload, w2) \<Longrightarrow>
   find_flight net payload w2 = (Inr token, w3) \<Longrightarrow>
   book_flight net repr token passenger_info currency w3 = (Inl f, w4) \<Longrightarrow>
   main pad repr int_of net argv w = (Inl f, w4)"
  by (simp add: main_def bind_def)

text \<open>The sample command line, parsed and formatted.\<close>

lemma sample_parse:
  "fst (parse_args int_of_digits sample_argv empty_world) = Inr 0"
  by code_simp

lemma sample_format:
  "fst (format_payload_for_get_request False 0
          (snd (parse_args int_of_digits sample_argv empty_world))) = Inr 0"
  by code_simp

lemma sample_payload:
  "ns (snd (format_payload_for_get_request False 0
              (snd (parse_args int_of_digits sample_argv empty_world)))) 0 =
     [(''dateFrom'', PyStr ''01/06/2024''), (''flyFrom'', PyStr ''NYC''), (''to'', PyStr ''LON''),
      (''typeFlight'', PyStr ''return''), (''daysInDestination'', PyInt 10),
      (''sort'', PyStr ''price'')]"
  by code_simp

section \<open>No results: exit 1 and no booking\<close>

text \<open>
  C3. When the namespace is parsed and formatted and the search response decodes to a JSON
  dictionary whose \<open>_results\<close> equals 0, the program prints
  \<open>No flights found. Check spelling of parameters. Use -h or --help for more information.\<close>
  and exits with code 1; the search request is the only request it has made, so no booking
  was attempted.
\<close>

theorem no_results_exit:
  assumes "parse_args int_of argv w = (Inr args, w1)"
    and "format_payload_for_get_request pad args w1 = (Inr payload, w2)"
    and "net (search_request (ns w2 payload)) = Response r"
    and "decoded r = Some (JObj kvs)"
    and "map_of kvs ''_results'' = Some n"
    and "eq_zero n"
  shows "main pad repr int_of net argv w =
           (Inl (SysExit 1),
            w2\<lparr>sent := sent w @ [search_request (ns w2 payload)],
               printed := printed w @
                 [''No flights found. Check spelling of parameters. Use -h or --help for more information.'']\<rparr>)"
proof -
  have frame: "printed w2 = printed w" "sent w2 = sent w"
    using parse_args_frame [OF assms(1)] format_payload_frame [OF assms(2)] by simp_all
  have "find_flight net payload w2 =
          (Inl (SysExit 1),
           w2\<lparr>sent := sent w @ [search_request (ns w2 payload)],
              printed := printed w @
                [''No flights found. Check spelling of parameters. Use -h or --help for more information.'']\<rparr>)"
    using assms(5,6)
    by (simp add: find_flight_decoded [where net = net, OF assms(3,4)] frame getitem_def
          no_flights_message_def)
  then show ?thesis
    by (rule main_find_fails [OF assms(1,2)])
qed

theorem no_results_exit_witness:
  "fst (main False sample_repr int_of_digits
          (sample_net (ok (JObj [(''_results'', JInt 0), (''data'', JList [])])) OtherError)
          sample_argv empty_world) = Inl (SysExit 1) \<and>
   printed (snd (main False sample_repr int_of_digits
          (sample_net (ok (JObj [(''_results'', JInt 0), (''data'', JList [])])) OtherError)
          sample_argv empty_world)) =
     [''No flights found. Check spelling of parameters. Use -h or --help for more information.''] \<and>
   sent (snd (main False sample_repr int_of_digits
          (sample_net (ok (JObj [(''_results'', JInt 0), (''data'', JList [])])) OtherError)
          sample_argv empty_world)) =
     [Request requests_get ''https://api.skypicker.com/flights?''
        (Some [(''dateFrom'', PyStr ''01/06/2024''), (''flyFrom'', PyStr ''NYC''),
               (''to'', PyStr ''LON''), (''typeFlight'', PyStr ''return''),
               (''daysInDestination'', PyInt 10), (''sort'', PyStr ''price'')])
        None]"
proof -
  let ?kvs = "[(''_results'', JInt 0), (''data'', JList [])]"
  let ?net = "sample_net (ok (JObj ?kvs)) OtherError"
  have net: "?net (search_request p) = Response \<lparr>status_code = 200, decoded = Some (JObj ?kvs)\<rparr>"
    for p
    by (simp add: sample_net_def search_request_def ok_def)
  have dec: "decoded \<lparr>status_code = 200, decoded = Some (JObj ?kvs)\<rparr> = Some (JObj ?kvs)"
    by simp
  have res: "map_of ?kvs ''_results'' = Some (JInt 0)"
    by simp
  have zero: "eq_zero (JInt 0)"
    by simp
  have w0: "printed empty_world = []" "sent empty_world = []"
    by (simp_all add: empty_world_def)
  let ?w2 = "snd (format_payload_for_get_request False 0
                    (snd (parse_args int_of_digits sample_argv empty_world)))"
  have m: "main False sample_repr int_of_digits ?net sample_argv empty_world =
             (Inl (SysExit 1),
              ?w2\<lparr>sent := sent empty_world @ [search_request (ns ?w2 0)],
                  printed := printed empty_world @
                    [''No flights found. Check spelling of parameters. Use -h or --help for more information.'']\<rparr>)"
    by (rule no_results_exit [where net = ?net,
              OF run_pair [OF sample_parse] run_pair [OF sample_format] net dec res zero])
  show ?thesis
    by (simp add: m sample_payload w0 search_request_def)
qed

section \<open>The first result's booking token\<close>

text \<open>
  C5, as the specification states it, fails: a nonzero \<open>_results\<close> alone does not make
  \<open>find_flight\<close> return a token. On \<open>{"_results": 1, "data": []}\<close> the subscript \<open>[0]\<close>
  raises \<open>IndexError\<close>, which nothing catches, and on \<open>{"_results": 1}\<close> the key \<open>data\<close> is
  missing; no token is returned.
\<close>

theorem nonzero_results_without_flight:
  "\<not> eq_zero (JInt 1) \<and>
   find_flight (sample_net (ok (JObj [(''_results'', JInt 1), (''data'', JList [])])) OtherError)
       0 empty_world =
     (Inl (Uncaught IndexError),
      empty_world\<lparr>sent := sent empty_world @ [search_request (ns empty_world 0)]\<rparr>) \<and>
   find_flight (sample_net (ok (JObj [(''_results'', JInt 1)])) OtherError) 0 empty_world =
     (Inl (Uncaught KeyError),
      empty_world\<lparr>sent := sent empty_world @ [search_request (ns empty_world 0)]\<rparr>)"
proof -
  have net: "sample_net (ok j) OtherError (search_request p) =
               Response \<lparr>status_code = 200, decoded = Some j\<rparr>" for j p
    by (simp add: sample_net_def search_request_def ok_def)
  have dec: "decoded \<lparr>status_code = 200, decoded = Some j\<rparr> = Some j" for j
    by simp
  have found: "find_flight (sample_net (ok j) OtherError) 0 empty_world =
      (let w1 = empty_world\<lparr>sent := sent empty_world @ [search_request (ns empty_world 0)]\<rparr> in
       case getitem j ''_results'' of
         Inl e \<Rightarrow> (Inl (Uncaught e), w1)
       | Inr n \<Rightarrow>
           if eq_zero n
           then (Inl (SysExit 1), w1\<lparr>printed := printed w1 @ [no_flights_message]\<rparr>)
           else (case getitem j ''data'' of
                   Inl e \<Rightarrow> (Inl (Uncaught e), w1)
                 | Inr d \<Rightarrow>
                     (case getitem0 d of
                        Inl e \<Rightarrow> (Inl (Uncaught e), w1)
                      | Inr f \<Rightarrow>
                          (case getitem f ''booking_token'' of
                             Inl e \<Rightarrow> (Inl (Uncaught e), w1)
                           | Inr t \<Rightarrow> (Inr t, w1)))))" for j
    by (rule find_flight_decoded [where net = "sample_net (ok j) OtherError", OF net dec])
  show ?thesis
    by (simp add: found getitem_def getitem0_def)
qed

text \<open>
  C5, amended. When the search response decodes to a JSON dictionary whose \<open>_results\<close> is
  not 0, whose \<open>data\<close> is a list with at least one element, and whose first element is a
  dictionary with a \<open>booking_token\<close>, \<open>find_flight\<close> returns that token: it does not exit, it
  prints nothing, and the search is the one request it makes.
\<close>

theorem first_booking_token:
  assumes "net (search_request (ns w payload)) = Response r"
    and "decoded r = Some (JObj kvs)"
    and "map_of kvs ''_results'' = Some n"
    and "\<not> eq_zero n"
    and "map_of kvs ''data'' = Some (JList (JObj item # others))"
    and "map_of item ''booking_token'' = Some token"
  shows "find_flight net payload w =
           (Inr token, w\<lparr>sent := sent w @ [search_request (ns w payload)]\<rparr>)"
  using assms(3-6)
  by (simp add: find_flight_decoded [where net = net, OF assms(1,2)] getitem_def getitem0_def)

theorem first_booking_token_witness:
  "find_flight
     (sample_net
        (ok (JObj [(''_results'', JInt 2),
                   (''data'', JList [JObj [(''booking_token'', JStr ''TOK123'')],
                                     JObj [(''booking_token'', JStr ''TOK456'')]])]))
        OtherError)
     0 (sample_world (sample_args (PyInt 10) ''01/06/2024'')) =
   (Inr (JStr ''TOK123''),
    (sample_world (sample_args (PyInt 10) ''01/06/2024''))
      \<lparr>sent := sent (sample_world (sample_args (PyInt 10) ''01/06/2024'')) @
                 [search_request (ns (sample_world (sample_args (PyInt 10) ''01/06/2024'')) 0)]\<rparr>)"
proof -
  let ?item = "[(''booking_token'', JStr ''TOK123'')]"
  let ?others = "[JObj [(''booking_token'', JStr ''TOK456'')]]"
  let ?kvs = "[(''_results'', JInt 2), (''data'', JList (JObj ?item # ?others))]"
  let ?net = "sample_net (ok (JObj ?kvs)) OtherError"
  have net: "?net (search_request p) = Response \<lparr>status_code = 200, decoded = Some (JObj ?kvs)\<rparr>"
    for p
    by (simp add: sample_net_def search_request_def ok_def)
  have dec: "decoded \<lparr>status_code = 200, decoded = Some (JObj ?kvs)\<rparr> = Some (JObj ?kvs)"
    by simp
  have res: "map_of ?kvs ''_results'' = Some (JInt 2)"
    by simp
  have nz: "\<not> eq_zero (JInt 2)"
    by simp
  have dat: "map_of ?kvs ''data'' = Some (JList (JObj ?item # ?others))"
    by simp
  have tok: "map_of ?item ''booking_token'' = Some (JStr ''TOK123'')"
    by simp
  show ?thesis
    by (rule first_booking_token [where net = ?net, OF net dec res nz dat tok])
qed

section \<open>The booking status\<close>

text \<open>
  C4, as the specification states it, fails in its second half: a response whose status is
  \<open>"confirmed"\<close> but which has no \<open>pnr\<close> makes \<open>booking.json()["pnr"]\<close> raise \<open>KeyError\<close>, which
  nothing catches, so \<open>book_flight\<close> returns no PNR.
\<close>

theorem confirmed_without_pnr:
  "map_of [(''status'', JStr ''confirmed'')] ''status'' = Some (JStr ''confirmed'') \<and>
   book_flight (sample_net OtherError (ok (JObj [(''status'', JStr ''confirmed'')]))) sample_repr
       (JStr ''TOK123'') passenger_info currency empty_world =
     (Inl (Uncaught KeyError),
      empty_world\<lparr>sent := sent empty_world @
                    [booking_request (JStr ''TOK123'') passenger_info currency]\<rparr>)"
proof -
  let ?j = "JObj [(''status'', JStr ''confirmed'')]"
  have net: "sample_net OtherError (ok ?j) (booking_request t p c) =
               Response \<lparr>status_code = 200, decoded = Some ?j\<rparr>" for t p c
    by (simp add: sample_net_def booking_request_def ok_def)
  have dec: "decoded \<lparr>status_code = 200, decoded = Some ?j\<rparr> = Some ?j"
    by simp
  show ?thesis
    by (simp add: book_flight_decoded [where net = "sample_net OtherError (ok ?j)", OF net dec]
          getitem_def)
qed

text \<open>
  C4, amended. When the booking response decodes to a JSON dictionary with a \<open>status\<close>: if
  the status is not \<open>"confirmed"\<close>, \<open>book_flight\<close> prints \<open>Booking not successful\<close>, a newline and
  the confirmation body as \<open>str\<close> shows it, and exits with code 1, and so does the program,
  whose last output is that message (no PNR is printed); if the status is \<open>"confirmed"\<close> and
  the dictionary has a \<open>pnr\<close>, \<open>book_flight\<close> returns that \<open>pnr\<close>.
\<close>

theorem booking_status:
  assumes "net (booking_request token pass_info cur) = Response r"
    and "decoded r = Some (JObj kvs)"
    and "map_of kvs ''status'' = Some st"
  shows "(st \<noteq> JStr ''confirmed'' \<longrightarrow>
            book_flight net repr token pass_info cur w =
              (Inl (SysExit 1),
               w\<lparr>sent := sent w @ [booking_request token pass_info cur],
                 printed := printed w @
                   [''Booking not successful'' @ [CHR 0x0A] @ repr (JObj kvs)]\<rparr>)) \<and>
         (\<forall>pnr. st = JStr ''confirmed'' \<longrightarrow> map_of kvs ''pnr'' = Some pnr \<longrightarrow>
            book_flight net repr token pass_info cur w =
              (Inr pnr, w\<lparr>sent := sent w @ [booking_request token pass_info cur]\<rparr>)) \<and>
         (\<forall>pad int_of argv w0 args w1 payload w2.
            st \<noteq> JStr ''confirmed'' \<longrightarrow> pass_info = passenger_info \<longrightarrow> cur = currency \<longrightarrow>
            parse_args int_of argv w0 = (Inr args, w1) \<longrightarrow>
            format_payload_for_get_request pad args w1 = (Inr payload, w2) \<longrightarrow>
            find_flight net payload w2 = (Inr token, w) \<longrightarrow>
            main pad repr int_of net argv w0 =
              (Inl (SysExit 1),
               w\<lparr>sent := sent w @ [booking_request token pass_info cur],
                 printed := printed w @
                   [''Booking not successful'' @ [CHR 0x0A] @ repr (JObj kvs)]\<rparr>))"
proof -
  have b: "st \<noteq> JStr ''confirmed'' \<Longrightarrow>
            book_flight net repr token pass_info cur w =
              (Inl (SysExit 1),
               w\<lparr>sent := sent w @ [booking_request token pass_info cur],
                 printed := printed w @
                   [''Booking not successful'' @ [CHR 0x0A] @ repr (JObj kvs)]\<rparr>)"
    using assms(3)
    by (simp add: book_flight_decoded [where net = net, OF assms(1,2)] getitem_def py_str_def
          newline_def)
  have c: "\<And>pnr. st = JStr ''confirmed'' \<Longrightarrow> map_of kvs ''pnr'' = Some pnr \<Longrightarrow>
            book_flight net repr token pass_info cur w =
              (Inr pnr, w\<lparr>sent := sent w @ [booking_request token pass_info cur]\<rparr>)"
    using assms(3)
    by (simp add: book_flight_decoded [where net = net, OF assms(1,2)] getitem_def)
  show ?thesis
    using b c by (auto intro: main_book_fails)
qed

lemma sample_find:
  "fst (find_flight (sample_net (ok sample_search) b) 0
          (snd (format_payload_for_get_request False 0
                  (snd (parse_args int_of_digits sample_argv empty_world))))) = Inr (JStr ''TOK123'')"
  unfolding sample_net_def by code_simp

lemma sample_find_printed:
  "printed (snd (find_flight (sample_net (ok sample_search) b) 0
          (snd (format_payload_for_get_request False 0
                  (snd (parse_args int_of_digits sample_argv empty_world)))))) = []"
  unfolding sample_net_def by code_simp

theorem booking_status_witness:
  "fst (main False sample_repr int_of_digits
          (sample_net (ok sample_search) (ok (JObj [(''status'', JStr ''failed'')])))
          sample_argv empty_world)
     = Inl (SysExit 1) \<and>
   printed (snd (main False sample_repr int_of_digits
          (sample_net (ok sample_search) (ok (JObj [(''status'', JStr ''failed'')])))
          sample_argv empty_world))
     = [''Booking not successful'' @ [CHR 0x0A] @ ''{'status': 'failed'}''] \<and>
   fst (book_flight
          (sample_net (ok sample_search)
             (ok (JObj [(''status'', JStr ''confirmed''), (''pnr'', JStr ''ABC987'')])))
          sample_repr (JStr ''TOK123'') passenger_info currency empty_world)
     = Inr (JStr ''ABC987'')"
proof -
  let ?kr = "[(''status'', JStr ''failed'')]"
  let ?kc = "[(''status'', JStr ''confirmed''), (''pnr'', JStr ''ABC987'')]"
  let ?netr = "sample_net (ok sample_search) (ok (JObj ?kr))"
  let ?netc = "sample_net (ok sample_search) (ok (JObj ?kc))"
  let ?w1 = "snd (parse_args int_of_digits sample_argv empty_world)"
  let ?w2 = "snd (format_payload_for_get_request False 0 ?w1)"
  let ?w3 = "snd (find_flight ?netr 0 ?w2)"
  have net: "sample_net a (ok j) (booking_request t p c) =
               Response \<lparr>status_code = 200, decoded = Some j\<rparr>" for a j t p c
    by (simp add: sample_net_def booking_request_def ok_def)
  have dec: "decoded \<lparr>status_code = 200, decoded = Some j\<rparr> = Some j" for j
    by simp
  have str: "map_of ?kr ''status'' = Some (JStr ''failed'')"
    by simp
  have stc: "map_of ?kc ''status'' = Some (JStr ''confirmed'')"
    by simp
  have pnr: "map_of ?kc ''pnr'' = Some (JStr ''ABC987'')"
    by simp
  have ne: "JStr ''failed'' \<noteq> JStr ''confirmed''"
    by simp
  note r = booking_status [where net = ?netr and repr = sample_repr and w = ?w3
             and token = "JStr ''TOK123''" and pass_info = passenger_info and cur = currency,
             OF net dec str]
  have rejected:
    "main False sample_repr int_of_digits ?netr sample_argv empty_world =
       (Inl (SysExit 1),
        ?w3\<lparr>sent := sent ?w3 @ [booking_request (JStr ''TOK123'') passenger_info currency],
            printed := printed ?w3 @
              [''Booking not successful'' @ [CHR 0x0A] @ sample_repr (JObj ?kr)]\<rparr>)"
    by (rule r [THEN conjunct2, THEN conjunct2, rule_format,
              OF ne refl refl run_pair [OF sample_parse] run_pair [OF sample_format]
                 run_pair [OF sample_find]])
  note c = booking_status [where net = ?netc and repr = sample_repr and w = empty_world
             and token = "JStr ''TOK123''" and pass_info = passenger_info and cur = currency,
             OF net dec stc]
  have confirmed:
    "book_flight ?netc sample_repr (JStr ''TOK123'') passenger_info currency empty_world =
       (Inr (JStr ''ABC987''),
        empty_world\<lparr>sent := sent empty_world @
                      [booking_request (JStr ''TOK123'') passenger_info currency]\<rparr>)"
    by (rule c [THEN conjunct2, THEN conjunct1, rule_format, OF refl pnr])
  have body: "sample_repr (JObj ?kr) = ''{'status': 'failed'}''"
    by code_simp
  show ?thesis
    by (simp add: rejected confirmed sample_find_printed body)
qed

section \<open>A date that does not parse\<close>

text \<open>
  C7. When the namespace has a \<open>daysInDestination\<close> attribute and its \<open>dateFrom\<close> is a string
  that \<open>strptime\<close> does not parse with \<open>%Y-%m-%d\<close>, \<open>format_payload_for_get_request\<close> prints
  the date-format message and exits with code 2: no payload is returned and no request is
  made.
\<close>

theorem bad_date_exit:
  assumes "map_of (ns w args) ''daysInDestination'' = Some n"
    and "map_of (ns w args) ''dateFrom'' = Some (PyStr s)"
    and "strptime s fmt_Ymd = None"
  shows "fst (format_payload_for_get_request pad args w) = Inl (SysExit 2) \<and>
         printed (snd (format_payload_for_get_request pad args w)) =
           printed w @ [''Incorrect date format. Enter date of departure as YYYY-MM-DD.''] \<and>
         sent (snd (format_payload_for_get_request pad args w)) = sent w"
  using assms
  by (simp add: format_payload_for_get_request_def Let_def ns_store dict_simps print_def)

theorem bad_date_exit_witness:
  "fst (format_payload_for_get_request True 0 (sample_world (sample_args PyNone ''01.06.2024'')))
     = Inl (SysExit 2) \<and>
   printed (snd (format_payload_for_get_request True 0
                   (sample_world (sample_args PyNone ''01.06.2024''))))
     = [''Incorrect date format. Enter date of departure as YYYY-MM-DD.''] \<and>
   fst (format_payload_for_get_request True 0 (sample_world (sample_args (PyInt 3) ''2023-02-29'')))
     = Inl (SysExit 2)"
proof -
  let ?w = "sample_world (sample_args PyNone ''01.06.2024'')"
  let ?v = "sample_world (sample_args (PyInt 3) ''2023-02-29'')"
  have a: "map_of (ns ?w 0) ''daysInDestination'' = Some PyNone"
          "map_of (ns ?w 0) ''dateFrom'' = Some (PyStr ''01.06.2024'')"
          "strptime ''01.06.2024'' fmt_Ymd = None"
    by code_simp+
  have b: "map_of (ns ?v 0) ''daysInDestination'' = Some (PyInt 3)"
          "map_of (ns ?v 0) ''dateFrom'' = Some (PyStr ''2023-02-29'')"
          "strptime ''2023-02-29'' fmt_Ymd = None"
    by code_simp+
  have p: "printed ?w = []"
    by (simp add: sample_world_def)
  show ?thesis
    using bad_date_exit [OF a, of True] bad_date_exit [OF b, of True] p by simp
qed

section \<open>No connection\<close>

text \<open>
  C8. When the request raises \<open>ConnectionError\<close>, \<open>request_server_response\<close> prints the
  no-response message and the error, and exits with code 1; so do \<open>find_flight\<close> on the search
  request and \<open>book_flight\<close> on the booking request.
\<close>

theorem connection_error_exit:
  "(net (Request m url p b) = ConnectionError err \<longrightarrow>
      request_server_response net m url p b w =
        (Inl (SysExit 1),
         w\<lparr>sent := sent w @ [Request m url p b],
           printed := printed w @ [''No response from server. Check your internet connection.'', err]\<rparr>)) \<and>
   (net (search_request (ns w payload)) = ConnectionError err \<longrightarrow>
      find_flight net payload w =
        (Inl (SysExit 1),
         w\<lparr>sent := sent w @ [search_request (ns w payload)],
           printed := printed w @ [''No response from server. Check your internet connection.'', err]\<rparr>)) \<and>
   (net (booking_request token pass_info cur) = ConnectionError err \<longrightarrow>
      book_flight net repr token pass_info cur w =
        (Inl (SysExit 1),
         w\<lparr>sent := sent w @ [booking_request token pass_info cur],
           printed := printed w @ [''No response from server. Check your internet connection.'', err]\<rparr>))"
  by (simp add: request_connection_error find_flight_def book_flight_def bind_def
        search_request_def booking_request_def)

theorem connection_error_exit_witness:
  "find_flight (sample_net (ConnectionError ''unreachable'') OtherError) 0 empty_world =
     (Inl (SysExit 1),
      empty_world\<lparr>sent := sent empty_world @ [search_request (ns empty_world 0)],
        printed := printed empty_world @
          [''No response from server. Check your internet connection.'', ''unreachable'']\<rparr>) \<and>
   book_flight (sample_net OtherError (ConnectionError ''unreachable'')) sample_repr
       (JStr ''TOK123'') passenger_info currency empty_world =
     (Inl (SysExit 1),
      empty_world\<lparr>sent := sent empty_world @
                     [booking_request (JStr ''TOK123'') passenger_info currency],
        printed := printed empty_world @
          [''No response from server. Check your internet connection.'', ''unreachable'']\<rparr>)"
proof -
  let ?s = "sample_net (ConnectionError ''unreachable'') OtherError"
  let ?b = "sample_net OtherError (ConnectionError ''unreachable'')"
  have s: "?s (search_request p) = ConnectionError ''unreachable''" for p
    by (simp add: sample_net_def search_request_def)
  have b: "?b (booking_request t p c) = ConnectionError ''unreachable''" for t p c
    by (simp add: sample_net_def booking_request_def)
  note c1 = connection_error_exit [where net = ?s and w = empty_world and payload = 0
              and err = "''unreachable''", THEN conjunct2, THEN conjunct1, rule_format, OF s]
  note c2 = connection_error_exit [where net = ?b and w = empty_world and repr = sample_repr
              and token = "JStr ''TOK123''" and pass_info = passenger_info and cur = currency
              and err = "''unreachable''", THEN conjunct2, THEN conjunct2, rule_format, OF b]
  show ?thesis
    using c1 c2 by (rule conjI)
qed

section \<open>Responses that lack a key\<close>

text \<open>
  C10. A decoded response that is a dictionary without the key the code reads is handled
  by no branch: \<open>find_flight\<close> ends in an uncaught \<open>KeyError\<close> when \<open>_results\<close> is missing, and,
  with \<open>_results\<close> not 0, in \<open>KeyError\<close> when \<open>data\<close> is missing, \<open>IndexError\<close> when \<open>data\<close> is the
  empty list, and \<open>KeyError\<close> when the first element is a dictionary without
  \<open>booking_token\<close>; \<open>book_flight\<close> ends in an uncaught \<open>KeyError\<close> when \<open>status\<close> is missing.
  Nothing is printed and no exit code is chosen by the program.
\<close>

theorem missing_key_uncaught:
  "(net (search_request (ns w payload)) = Response r \<longrightarrow> decoded r = Some (JObj kvs) \<longrightarrow>
    map_of kvs ''_results'' = None \<longrightarrow>
      find_flight net payload w =
        (Inl (Uncaught KeyError), w\<lparr>sent := sent w @ [search_request (ns w payload)]\<rparr>)) \<and>
   (net (search_request (ns w payload)) = Response r \<longrightarrow> decoded r = Some (JObj kvs) \<longrightarrow>
    map_of kvs ''_results'' = Some n \<longrightarrow> \<not> eq_zero n \<longrightarrow> map_of kvs ''data'' = None \<longrightarrow>
      find_flight net payload w =
        (Inl (Uncaught KeyError), w\<lparr>sent := sent w @ [search_request (ns w payload)]\<rparr>)) \<and>
   (net (search_request (ns w payload)) = Response r \<longrightarrow> decoded r = Some (JObj kvs) \<longrightarrow>
    map_of kvs ''_results'' = Some n \<longrightarrow> \<not> eq_zero n \<longrightarrow> map_of kvs ''data'' = Some (JList []) \<longrightarrow>
      find_flight net payload w =
        (Inl (Uncaught IndexError), w\<lparr>sent := sent w @ [search_request (ns w payload)]\<rparr>)) \<and>
   (net (search_request (ns w payload)) = Response r \<longrightarrow> decoded r = Some (JObj kvs) \<longrightarrow>
    map_of kvs ''_results'' = Some n \<longrightarrow> \<not> eq_zero n \<longrightarrow>
    map_of kvs ''data'' = Some (JList (JObj item # others)) \<longrightarrow>
    map_of item ''booking_token'' = None \<longrightarrow>
      find_flight net payload w =
        (Inl (Uncaught KeyError), w\<lparr>sent := sent w @ [search_request (ns w payload)]\<rparr>)) \<and>
   (net (booking_request token pass_info cur) = Response r' \<longrightarrow> decoded r' = Some (JObj kvs') \<longrightarrow>
    map_of kvs' ''status'' = None \<longrightarrow>
      book_flight net repr token pass_info cur w =
        (Inl (Uncaught KeyError), w\<lparr>sent := sent w @ [booking_request token pass_info cur]\<rparr>))"
  by (auto simp: find_flight_decoded book_flight_decoded getitem_def getitem0_def)

theorem missing_key_uncaught_witness:
  "fst (find_flight (sample_net (ok (JObj [(''data'', JList [])])) OtherError) 0 empty_world)
     = Inl (Uncaught KeyError) \<and>
   fst (find_flight (sample_net (ok (JObj [(''_results'', JInt 3)])) OtherError) 0 empty_world)
     = Inl (Uncaught KeyError) \<and>
   fst (find_flight (sample_net (ok (JObj [(''_results'', JInt 3), (''data'', JList [])]))
          OtherError) 0 empty_world)
     = Inl (Uncaught IndexError) \<and>
   fst (find_flight (sample_net (ok (JObj [(''_results'', JInt 3),
                                           (''data'', JList [JObj [(''price'', JInt 9)]])]))
          OtherError) 0 empty_world)
     = Inl (Uncaught KeyError) \<and>
   fst (book_flight (sample_net OtherError (ok (JObj [(''pnr'', JStr ''ABC987'')]))) sample_repr
          (JStr ''TOK123'') passenger_info currency empty_world)
     = Inl (Uncaught KeyError) \<and>
   printed (snd (book_flight (sample_net OtherError (ok (JObj [(''pnr'', JStr ''ABC987'')])))
          sample_repr (JStr ''TOK123'') passenger_info currency empty_world))
     = []"
proof -
  have s: "sample_net (ok j) b (search_request p) = Response \<lparr>status_code = 200, decoded = Some j\<rparr>"
    for j b p
    by (simp add: sample_net_def search_request_def ok_def)
  have b: "sample_net a (ok j) (booking_request t p c) =
             Response \<lparr>status_code = 200, decoded = Some j\<rparr>" for a j t p c
    by (simp add: sample_net_def booking_request_def ok_def)
  have d: "decoded \<lparr>status_code = 200, decoded = Some j\<rparr> = Some j" for j
    by simp
  have nz: "\<not> eq_zero (JInt 3)"
    by simp
  have pe: "printed empty_world = []"
    by (simp add: empty_world_def)
  note k1 = missing_key_uncaught [where net = "sample_net (ok (JObj [(''data'', JList [])])) OtherError"
              and w = empty_world and payload = 0,
              THEN conjunct1, rule_format, OF s d]
  note k2 = missing_key_uncaught [where net = "sample_net (ok (JObj [(''_results'', JInt 3)])) OtherError"
              and w = empty_world and payload = 0,
              THEN conjunct2, THEN conjunct1, rule_format, OF s d _ nz]
  note k3 = missing_key_uncaught [where net = "sample_net (ok (JObj [(''_results'', JInt 3), (''data'', JList [])])) OtherError"
              and w = empty_world and payload = 0,
              THEN conjunct2, THEN conjunct2, THEN conjunct1, rule_format, OF s d _ nz]
  note k4 = missing_key_uncaught [where net = "sample_net (ok (JObj [(''_results'', JInt 3), (''data'', JList [JObj [(''price'', JInt 9)]])])) OtherError"
              and w = empty_world and payload = 0,
              THEN conjunct2, THEN conjunct2, THEN conjunct2, THEN conjunct1, rule_format,
              OF s d _ nz]
  note k5 = missing_key_uncaught [where net = "sample_net OtherError (ok (JObj [(''pnr'', JStr ''ABC987'')]))"
              and w = empty_world and repr = sample_repr and token = "JStr ''TOK123''"
              and pass_info = passenger_info and cur = currency,
              THEN conjunct2, THEN conjunct2, THEN conjunct2, THEN conjunct2, rule_format,
              OF b d]
  show ?thesis
    by (simp add: k1 k2 k3 k4 k5 pe)
qed



section \<open>Digits, padded numbers and the two date formats\<close>

lemma of_char_digit_char [simp]: "(of_char (digit_char n) :: nat) = 48 + n mod 10"
  by (simp add: digit_char_def)

lemma char_eq_digit_char: "c = digit_char n \<longleftrightarrow> (of_char c :: nat) = 48 + n mod 10"
proof -
  have "c = digit_char n \<longleftrightarrow> (of_char c :: nat) = of_char (digit_char n)"
    by (simp only: of_char_eq_iff)
  then show ?thesis by simp
qed

lemma is_digit_digit_char [simp]: "is_digit (digit_char n)"
  by (simp add: is_digit_def in_range_def)

lemma in_range_digit_char:
  "in_range lo hi (digit_char n) \<longleftrightarrow> (of_char lo :: nat) \<le> 48 + n mod 10 \<and> 48 + n mod 10 \<le> (of_char hi :: nat)"
  by (simp add: in_range_def)

lemma digit_val_digit_char [simp]: "digit_val (digit_char n) = n mod 10"
  by (simp add: digit_val_def)

lemma digit_char_not_blank [simp]: "digit_char n \<noteq> CHR '' ''"
  using char_eq_digit_char [of "CHR '' ''" n] by auto

lemma zpad2: "zpad 2 n = [digit_char (n div 10), digit_char n]"
proof -
  have "(2::nat) = Suc (Suc 0)" by simp
  then show ?thesis by (simp only: zpad.simps) simp
qed

lemma zpad4:
  "zpad 4 n = [digit_char (n div 1000), digit_char (n div 100), digit_char (n div 10), digit_char n]"
proof -
  have "(4::nat) = Suc (Suc (Suc (Suc 0)))" by simp
  moreover have "n div 10 div 10 = n div 100" "n div 10 div 10 div 10 = n div 1000"
    by (simp_all add: div_mult2_eq [symmetric])
  ultimately show ?thesis by (simp only: zpad.simps) simp
qed


lemma py_int_snoc: "c \<noteq> CHR '' '' \<Longrightarrow> py_int (t @ [c]) = 10 * py_int t + digit_val c"
  by (simp add: py_int_def)

lemma py_int_zpad: "py_int (zpad k n) = n mod 10 ^ k"
proof (induction k arbitrary: n)
  case 0
  show ?case by (simp add: py_int_def)
next
  case (Suc k)
  have "n mod (10 * 10 ^ k) = 10 * (n div 10 mod 10 ^ k) + n mod 10"
    by (simp add: mod_mult2_eq)
  then show ?case
    by (simp add: py_int_snoc Suc)
qed

lemma regex_Y: "dir_regex Dir_Y (zpad 4 y @ r) = [(zpad 4 y, r)]"
  by (simp add: zpad4)

lemma regex_m:
  assumes "1 \<le> m" "m \<le> 12"
  shows "dir_regex Dir_m (zpad 2 m @ r) =
           (zpad 2 m, r) # (if 10 \<le> m then [([digit_char (m div 10)], digit_char m # r)] else [])"
proof -
  have "m \<in> {1, 2, 3, 4, 5, 6, 7, 8, 9, 10, 11, 12}"
    using assms by simp arith
  then show ?thesis
    by (elim insertE emptyE; simp add: zpad2 char_eq_digit_char in_range_digit_char)
qed

lemma regex_d:
  assumes "1 \<le> d" "d \<le> 31"
  shows "dir_regex Dir_d (zpad 2 d @ r) =
           (zpad 2 d, r) # (if 10 \<le> d then [([digit_char (d div 10)], digit_char d # r)] else [])"
proof -
  have "d \<in> {1, 2, 3, 4, 5, 6, 7, 8, 9, 10, 11, 12, 13, 14, 15, 16, 17, 18, 19, 20,
              21, 22, 23, 24, 25, 26, 27, 28, 29, 30, 31}"
    using assms by simp arith
  then show ?thesis
    by (elim insertE emptyE; simp add: zpad2 char_eq_digit_char in_range_digit_char)
qed


lemma regex_Y_end: "dir_regex Dir_Y (zpad 4 y) = [(zpad 4 y, [])]"
  using regex_Y [of y "[]"] by (simp del: dir_regex.simps)

lemma regex_d_end:
  assumes "1 \<le> d" "d \<le> 31"
  shows "dir_regex Dir_d (zpad 2 d) =
           (zpad 2 d, []) # (if 10 \<le> d then [([digit_char (d div 10)], [digit_char d])] else [])"
  using regex_d [OF assms, of "[]"] by (simp del: dir_regex.simps)

lemma digit_char_not_sep [simp]:
  "CHR ''-'' \<noteq> digit_char n" "CHR ''/'' \<noteq> digit_char n"
  by (simp_all add: char_eq_digit_char)

lemma days_in_month_le: "days_in_month y m \<le> 31"
  by (simp add: days_in_month_def)

lemma strptime_iso:
  assumes "y \<le> 9999" "1 \<le> m" "m \<le> 12" "1 \<le> d" "d \<le> 31"
  shows "strptime (iso_text y m d) fmt_Ymd = make_date y m d"
proof -
  have t: "iso_text y m d = zpad 4 y @ (CHR ''-'' # (zpad 2 m @ (CHR ''-'' # (zpad 2 d @ []))))"
    by (simp add: iso_text_def)
  have v: "py_int (zpad 4 y) = y" "py_int (zpad 2 m) = m" "py_int (zpad 2 d) = d"
    using assms by (simp_all add: py_int_zpad)
  show ?thesis
    unfolding t strptime_def fmt_Ymd_def
    by (simp add: regex_Y regex_m [OF assms(2,3)] regex_d [OF assms(4,5)] group_def v
          regex_Y_end regex_d_end [OF assms(4,5)]
          del: dir_regex.simps(1,2,3))
qed

lemma strptime_dmy:
  assumes "y \<le> 9999" "1 \<le> m" "m \<le> 12" "1 \<le> d" "d \<le> 31"
  shows "strptime (dmy_text y m d) fmt_dmY = make_date y m d"
proof -
  have t: "dmy_text y m d = zpad 2 d @ (CHR ''/'' # (zpad 2 m @ (CHR ''/'' # (zpad 4 y @ []))))"
    by (simp add: dmy_text_def)
  have v: "py_int (zpad 4 y) = y" "py_int (zpad 2 m) = m" "py_int (zpad 2 d) = d"
    using assms by (simp_all add: py_int_zpad)
  show ?thesis
    unfolding t strptime_def fmt_dmY_def
    by (simp add: regex_Y regex_m [OF assms(2,3)] regex_d [OF assms(4,5)] group_def v
          regex_Y_end regex_d_end [OF assms(4,5)]
          del: dir_regex.simps(1,2,3))
qed

lemma dec_step: "10 \<le> n \<Longrightarrow> dec n = dec (n div 10) @ [digit_char n]"
  by (subst dec.simps) simp

lemma dec_digit: "n < 10 \<Longrightarrow> dec n = [digit_char n]"
  by (subst dec.simps) simp

lemma dec_four_digits:
  assumes "1000 \<le> y" "y \<le> 9999"
  shows "dec y = zpad 4 y"
proof -
  have f: "10 \<le> y" "10 \<le> y div 10" "10 \<le> y div 100" "y div 1000 < 10"
    using assms by arith+
  have e: "y div 10 div 10 = y div 100" "y div 100 div 10 = y div 1000"
    by (simp_all add: div_mult2_eq [symmetric])
  show ?thesis
    using dec_step [OF f(1)] dec_step [OF f(2)] dec_step [OF f(3)] dec_digit [OF f(4)]
    by (simp add: e zpad4)
qed

lemma year_text:
  assumes "pad \<or> 1000 \<le> y" "y \<le> 9999"
  shows "dir_format pad \<lparr>year = y, month = m, day = d\<rparr> Dir_Y = zpad 4 y"
  using assms by (auto simp: dec_four_digits)

lemma strftime_dmy:
  assumes "pad \<or> 1000 \<le> y" "y \<le> 9999"
  shows "strftime pad \<lparr>year = y, month = m, day = d\<rparr> fmt_dmY = dmy_text y m d"
  by (simp add: strftime_def fmt_dmY_def dmy_text_def year_text [OF assms] del: dir_format.simps(1))

lemma strftime_iso:
  assumes "pad \<or> 1000 \<le> y" "y \<le> 9999"
  shows "strftime pad \<lparr>year = y, month = m, day = d\<rparr> fmt_Ymd = iso_text y m d"
  by (simp add: strftime_def fmt_Ymd_def iso_text_def year_text [OF assms] del: dir_format.simps(1))



section \<open>The date is rewritten and can be read back\<close>

text \<open>
  C2, as the specification states it, fails: \<open>0000-01-01\<close> is a valid ISO-8601 date in the
  form \<open>YYYY-MM-DD\<close>, but \<open>datetime\<close> has no year 0, so \<open>strptime\<close> raises \<open>ValueError\<close> and the
  formatter exits with code 2 instead of rewriting the date, whatever the C library does.
  Where the C library writes \<open>%Y\<close> without padding, a year below 1000 is a second failure:
  \<open>0999-01-01\<close> becomes \<open>01/01/999\<close>, which \<open>%d/%m/%Y\<close> does not read back.
\<close>

theorem year_zero_rejected:
  "iso8601_date 0 1 1 \<and> iso_text 0 1 1 = ''0000-01-01'' \<and>
   format_payload_for_get_request True 0 (sample_world (sample_args PyNone ''0000-01-01'')) =
     (Inl (SysExit 2),
      print ''Incorrect date format. Enter date of departure as YYYY-MM-DD.''
        (store 0 (AList.delete ''daysInDestination''
                    (AList.update ''typeFlight'' (PyStr ''oneway'')
                       (sample_args PyNone ''0000-01-01'')))
           (sample_world (sample_args PyNone ''0000-01-01'')))) \<and>
   fst (format_payload_for_get_request False 0 (sample_world (sample_args PyNone ''0000-01-01''))) =
     Inl (SysExit 2) \<and>
   iso8601_date 999 1 1 \<and> iso_text 999 1 1 = ''0999-01-01'' \<and>
   map_of (ns (snd (format_payload_for_get_request False 0
                      (sample_world (sample_args PyNone ''0999-01-01'')))) 0) ''dateFrom'' =
     Some (PyStr ''01/01/999'') \<and>
   strptime ''01/01/999'' fmt_dmY = None"
proof -
  have a: "iso8601_date 0 1 1" "iso_text 0 1 1 = ''0000-01-01''"
    by code_simp+
  have s: "strptime ''0000-01-01'' fmt_Ymd = None"
    by code_simp
  have n: "ns (sample_world d) 0 = d" for d
    by (simp add: sample_world_def)
  have d: "map_of (sample_args PyNone t) ''daysInDestination'' = Some PyNone"
          "map_of (sample_args PyNone t) ''dateFrom'' = Some (PyStr t)" for t
    by (simp_all add: sample_args_def)
  have f: "format_payload_for_get_request pad 0 (sample_world (sample_args PyNone ''0000-01-01'')) =
     (Inl (SysExit 2),
      print ''Incorrect date format. Enter date of departure as YYYY-MM-DD.''
        (store 0 (AList.delete ''daysInDestination''
                    (AList.update ''typeFlight'' (PyStr ''oneway'')
                       (sample_args PyNone ''0000-01-01'')))
           (sample_world (sample_args PyNone ''0000-01-01''))))" for pad
    by (simp add: format_payload_for_get_request_def Let_def n d s ns_store dict_simps store_def)
  have b: "iso8601_date 999 1 1" "iso_text 999 1 1 = ''0999-01-01''"
    "map_of (ns (snd (format_payload_for_get_request False 0
                      (sample_world (sample_args PyNone ''0999-01-01'')))) 0) ''dateFrom'' =
     Some (PyStr ''01/01/999'')"
    "strptime ''01/01/999'' fmt_dmY = None"
    by code_simp+
  show ?thesis
    by (intro conjI a b f) (simp add: f)
qed

text \<open>
  C2, amended. For every date \<open>y-m-d\<close> that \<open>datetime\<close> can hold (year 1 to 9999, a month and a
  day that exist), on a platform whose \<open>strftime\<close> writes \<open>%Y\<close> with four digits (always so
  from year 1000 on): when \<open>dateFrom\<close> is the date in the form \<open>YYYY-MM-DD\<close>, the formatter
  returns the payload with \<open>dateFrom\<close> rewritten to \<open>DD/MM/YYYY\<close>; parsing that text with
  \<open>%d/%m/%Y\<close> gives the same date, and formatting it with \<open>%Y-%m-%d\<close> gives the input back.
\<close>

theorem date_round_trip:
  assumes "make_date y m d = Some dt"
    and "pad \<or> 1000 \<le> y"
    and "map_of (ns w args) ''daysInDestination'' = Some n"
    and "map_of (ns w args) ''dateFrom'' = Some (PyStr (iso_text y m d))"
  shows "fst (format_payload_for_get_request pad args w) = Inr args \<and>
         map_of (ns (snd (format_payload_for_get_request pad args w)) args) ''dateFrom'' =
           Some (PyStr (dmy_text y m d)) \<and>
         strptime (dmy_text y m d) fmt_dmY = Some \<lparr>year = y, month = m, day = d\<rparr> \<and>
         strftime pad \<lparr>year = y, month = m, day = d\<rparr> fmt_Ymd = iso_text y m d"
proof -
  have r: "1 \<le> y" "y \<le> 9999" "1 \<le> m" "m \<le> 12" "1 \<le> d" "d \<le> days_in_month y m"
      and dt: "dt = \<lparr>year = y, month = m, day = d\<rparr>"
    using assms(1) by (auto simp: make_date_def split: if_splits)
  have d31: "d \<le> 31"
    using r(6) days_in_month_le [of y m] by simp
  have p: "strptime (iso_text y m d) fmt_Ymd = Some \<lparr>year = y, month = m, day = d\<rparr>"
    using strptime_iso [OF r(2,3,4,5) d31] assms(1) dt by simp
  have q: "strptime (dmy_text y m d) fmt_dmY = Some \<lparr>year = y, month = m, day = d\<rparr>"
    using strptime_dmy [OF r(2,3,4,5) d31] assms(1) dt by simp
  have f: "strftime pad \<lparr>year = y, month = m, day = d\<rparr> fmt_dmY = dmy_text y m d"
    by (rule strftime_dmy [OF assms(2) r(2)])
  have g: "strftime pad \<lparr>year = y, month = m, day = d\<rparr> fmt_Ymd = iso_text y m d"
    by (rule strftime_iso [OF assms(2) r(2)])
  show ?thesis
    using assms(3,4)
    by (simp add: format_payload_for_get_request_def Let_def ns_store dict_simps p q f g)
qed

theorem date_round_trip_witness:
  "fst (format_payload_for_get_request False 0 (sample_world (sample_args (PyInt 7) ''2024-02-29'')))
     = Inr 0 \<and>
   map_of (ns (snd (format_payload_for_get_request False 0
                      (sample_world (sample_args (PyInt 7) ''2024-02-29'')))) 0) ''dateFrom''
     = Some (PyStr ''29/02/2024'') \<and>
   strptime ''29/02/2024'' fmt_dmY = Some \<lparr>year = 2024, month = 2, day = 29\<rparr> \<and>
   strftime False \<lparr>year = 2024, month = 2, day = 29\<rparr> fmt_Ymd = ''2024-02-29'' \<and>
   map_of (ns (snd (format_payload_for_get_request True 0
                      (sample_world (sample_args PyNone ''0987-12-31'')))) 0) ''dateFrom''
     = Some (PyStr ''31/12/0987'')"
proof -
  have m: "make_date 2024 2 29 = Some \<lparr>year = 2024, month = 2, day = 29\<rparr>"
          "make_date 987 12 31 = Some \<lparr>year = 987, month = 12, day = 31\<rparr>"
    by code_simp+
  have t: "iso_text 2024 2 29 = ''2024-02-29''" "dmy_text 2024 2 29 = ''29/02/2024''"
          "iso_text 987 12 31 = ''0987-12-31''" "dmy_text 987 12 31 = ''31/12/0987''"
    by code_simp+
  have p: "False \<or> (1000::nat) \<le> 2024" "True \<or> (1000::nat) \<le> 987"
    by simp_all
  have a: "map_of (ns (sample_world (sample_args v s)) 0) ''daysInDestination'' = Some v"
          "map_of (ns (sample_world (sample_args v s)) 0) ''dateFrom'' = Some (PyStr s)" for v s
    by (simp_all add: sample_world_def sample_args_def)
  note one = date_round_trip [OF m(1) p(1), where w = "sample_world (sample_args (PyInt 7) ''2024-02-29'')"
               and args = 0, unfolded t, OF a]
  note two = date_round_trip [OF m(2) p(2), where w = "sample_world (sample_args PyNone ''0987-12-31'')"
               and args = 0, unfolded t, OF a]
  show ?thesis
    using one two by simp
qed



section \<open>The input record is updated in place\<close>

lemma cls4_match: "cls4 p s \<noteq> [] \<Longrightarrow> \<exists>a b c r. s = a # b # c # r \<and> p c"
  by (induction p s rule: cls4.induct) (auto split: if_splits)

lemma strptime_Ymd_third_digit:
  assumes "strptime s fmt_Ymd = Some dt"
  shows "\<exists>a b c r. s = a # b # c # r \<and> is_digit c"
proof -
  have "cls4 is_digit s \<noteq> []"
    using assms by (auto simp: strptime_def fmt_Ymd_def)
  then show ?thesis
    by (rule cls4_match)
qed

lemma strftime_dmY_third_slash:
  "\<exists>a b r. strftime pad dt fmt_dmY = a # b # CHR ''/'' # r"
  by (simp add: strftime_def fmt_dmY_def zpad2 del: dir_format.simps(1))

lemma slash_no_digit: "\<not> is_digit CHR ''/''"
  by (simp add: is_digit_def in_range_def)

lemma reformatted_differs:
  assumes "strptime s fmt_Ymd = Some dt"
  shows "strftime pad dt fmt_dmY \<noteq> s"
  using strptime_Ymd_third_digit [OF assms] strftime_dmY_third_slash [of pad dt] slash_no_digit
  by auto

lemma format_payload_returns:
  assumes "format_payload_for_get_request pad args w = (Inr payload, w')"
  shows "\<exists>n s dt. map_of (ns w args) ''daysInDestination'' = Some n \<and>
           map_of (ns w args) ''dateFrom'' = Some (PyStr s) \<and>
           strptime s fmt_Ymd = Some dt \<and>
           ns w' args =
             AList.update ''dateFrom'' (PyStr (strftime pad dt fmt_dmY))
               (if n = PyNone
                then AList.delete ''daysInDestination''
                       (AList.update ''typeFlight'' (PyStr ''oneway'') (ns w args))
                else AList.update ''typeFlight'' (PyStr ''return'') (ns w args))"
proof -
  obtain n where n: "map_of (ns w args) ''daysInDestination'' = Some n"
    using assms by (cases "map_of (ns w args) ''daysInDestination''")
      (simp_all add: format_payload_for_get_request_def)
  define d where "d = (if n = PyNone
                then AList.delete ''daysInDestination''
                       (AList.update ''typeFlight'' (PyStr ''oneway'') (ns w args))
                else AList.update ''typeFlight'' (PyStr ''return'') (ns w args))"
  define w1 where "w1 = (if n = PyNone
       then store args (AList.delete ''daysInDestination''
              (ns (store args (AList.update ''typeFlight'' (PyStr ''oneway'') (ns w args)) w) args))
              (store args (AList.update ''typeFlight'' (PyStr ''oneway'') (ns w args)) w)
       else store args (AList.update ''typeFlight'' (PyStr ''return'') (ns w args)) w)"
  have d1: "ns w1 args = d"
    by (simp add: w1_def d_def ns_store)
  have date: "map_of d ''dateFrom'' = map_of (ns w args) ''dateFrom''"
    by (simp add: d_def dict_simps)
  have run: "format_payload_for_get_request pad args w =
     (case map_of d ''dateFrom'' of
                None \<Rightarrow> (Inl (Uncaught KeyError), w1)
              | Some (PyStr s) \<Rightarrow>
                  (case strptime s fmt_Ymd of
                     None \<Rightarrow>
                       (Inl (SysExit 2),
                        print ''Incorrect date format. Enter date of departure as YYYY-MM-DD.'' w1)
                   | Some dt \<Rightarrow>
                       (Inr args,
                        store args
                          (AList.update ''dateFrom'' (PyStr (strftime pad dt fmt_dmY)) d) w1))
              | Some _ \<Rightarrow> (Inl (Uncaught TypeError), w1))"
    unfolding format_payload_for_get_request_def Let_def n option.case d1 [symmetric] w1_def
    by simp
  obtain v where v: "map_of d ''dateFrom'' = Some v"
    using assms unfolding run by (cases "map_of d ''dateFrom''") simp_all
  obtain s where s: "v = PyStr s"
    using assms unfolding run v by (cases v) simp_all
  obtain dt where dt: "strptime s fmt_Ymd = Some dt"
    using assms unfolding run v s by (cases "strptime s fmt_Ymd") simp_all
  have "w' = store args (AList.update ''dateFrom'' (PyStr (strftime pad dt fmt_dmY)) d) w1"
    using assms unfolding run v s by (auto simp: dt)
  then have "ns w' args = AList.update ''dateFrom'' (PyStr (strftime pad dt fmt_dmY)) d"
    by (simp add: ns_store)
  with n v s dt date show ?thesis
    unfolding d_def by auto
qed

text \<open>
  C6, as the specification states it, fails: \<open>vars(args)\<close> is the namespace's own dictionary,
  so the assignments to \<open>payload\<close> change the record that was passed in. On the sample
  one-way record the call returns normally and leaves \<open>typeFlight\<close> set, \<open>daysInDestination\<close>
  removed and \<open>dateFrom\<close> rewritten in that record.
\<close>

theorem input_record_changed:
  "fst (format_payload_for_get_request False 0 (sample_world (sample_args PyNone ''2024-06-01'')))
     = Inr 0 \<and>
   ns (sample_world (sample_args PyNone ''2024-06-01'')) 0 =
     [(''dateFrom'', PyStr ''2024-06-01''), (''flyFrom'', PyStr ''NYC''), (''to'', PyStr ''LON''),
      (''typeFlight'', PyNone), (''daysInDestination'', PyNone), (''sort'', PyStr ''price'')] \<and>
   ns (snd (format_payload_for_get_request False 0
              (sample_world (sample_args PyNone ''2024-06-01'')))) 0 =
     [(''dateFrom'', PyStr ''01/06/2024''), (''flyFrom'', PyStr ''NYC''), (''to'', PyStr ''LON''),
      (''typeFlight'', PyStr ''oneway''), (''sort'', PyStr ''price'')] \<and>
   ns (snd (format_payload_for_get_request False 0
              (sample_world (sample_args PyNone ''2024-06-01'')))) 0 \<noteq>
     ns (sample_world (sample_args PyNone ''2024-06-01'')) 0"
  by code_simp

text \<open>
  C6, amended. When \<open>format_payload_for_get_request\<close> returns normally it prints nothing,
  makes no request, allocates nothing and leaves every other object as it was; but the
  payload it returns is the input record itself, updated in place: its \<open>typeFlight\<close> is now
  \<open>"oneway"\<close> or \<open>"return"\<close>, its \<open>daysInDestination\<close> is removed when it was \<open>None\<close> and kept
  otherwise, its \<open>dateFrom\<close>, which held a text that \<open>strptime\<close> parses, holds the reformatted
  date, and every other attribute is as before. The record is never left unchanged.
\<close>

theorem input_record_updated_in_place:
  assumes "format_payload_for_get_request pad args w = (Inr payload, w')"
  shows "payload = args \<and> printed w' = printed w \<and> sent w' = sent w \<and>
         next_addr w' = next_addr w \<and> (\<forall>a. a \<noteq> args \<longrightarrow> ns w' a = ns w a) \<and>
         (\<exists>n s dt. map_of (ns w args) ''daysInDestination'' = Some n \<and>
                   map_of (ns w args) ''dateFrom'' = Some (PyStr s) \<and>
                   strptime s fmt_Ymd = Some dt \<and>
                   map_of (ns w' args) ''dateFrom'' = Some (PyStr (strftime pad dt fmt_dmY)) \<and>
                   map_of (ns w' args) ''typeFlight'' =
                     Some (PyStr (if n = PyNone then ''oneway'' else ''return'')) \<and>
                   map_of (ns w' args) ''daysInDestination'' =
                     (if n = PyNone then None else Some n)) \<and>
         (\<forall>k. k \<noteq> ''dateFrom'' \<longrightarrow> k \<noteq> ''typeFlight'' \<longrightarrow> k \<noteq> ''daysInDestination'' \<longrightarrow>
              map_of (ns w' args) k = map_of (ns w args) k) \<and>
         ns w' args \<noteq> ns w args"
proof -
  have frame: "payload = args \<and> printed w' = printed w \<and> sent w' = sent w \<and>
         next_addr w' = next_addr w \<and> (\<forall>a. a \<noteq> args \<longrightarrow> ns w' a = ns w a)"
    using assms(1)
    by (auto simp: format_payload_for_get_request_def Let_def ns_store
             split: option.splits pyval.splits if_splits)
  obtain n s dt where n: "map_of (ns w args) ''daysInDestination'' = Some n"
    and s: "map_of (ns w args) ''dateFrom'' = Some (PyStr s)"
    and dt: "strptime s fmt_Ymd = Some dt"
    and r: "ns w' args =
             AList.update ''dateFrom'' (PyStr (strftime pad dt fmt_dmY))
               (if n = PyNone
                then AList.delete ''daysInDestination''
                       (AList.update ''typeFlight'' (PyStr ''oneway'') (ns w args))
                else AList.update ''typeFlight'' (PyStr ''return'') (ns w args))"
    using format_payload_returns [OF assms(1)] by (elim exE conjE)
  have date: "map_of (ns w' args) ''dateFrom'' = Some (PyStr (strftime pad dt fmt_dmY))"
    unfolding r by (rule map_of_update_same)
  have type: "map_of (ns w' args) ''typeFlight'' =
                Some (PyStr (if n = PyNone then ''oneway'' else ''return''))"
    unfolding r by (simp add: dict_simps)
  have days: "map_of (ns w' args) ''daysInDestination'' = (if n = PyNone then None else Some n)"
    unfolding r using n by (simp add: dict_simps)
  have others: "\<forall>k. k \<noteq> ''dateFrom'' \<longrightarrow> k \<noteq> ''typeFlight'' \<longrightarrow> k \<noteq> ''daysInDestination'' \<longrightarrow>
              map_of (ns w' args) k = map_of (ns w args) k"
    unfolding r by (simp add: dict_simps)
  have differs: "ns w' args \<noteq> ns w args"
    using s date reformatted_differs [OF dt, of pad] by auto
  have attrs: "\<exists>n s dt. map_of (ns w args) ''daysInDestination'' = Some n \<and>
                   map_of (ns w args) ''dateFrom'' = Some (PyStr s) \<and>
                   strptime s fmt_Ymd = Some dt \<and>
                   map_of (ns w' args) ''dateFrom'' = Some (PyStr (strftime pad dt fmt_dmY)) \<and>
                   map_of (ns w' args) ''typeFlight'' =
                     Some (PyStr (if n = PyNone then ''oneway'' else ''return'')) \<and>
                   map_of (ns w' args) ''daysInDestination'' =
                     (if n = PyNone then None else Some n)"
    using n s dt date type days by (intro exI conjI)
  show ?thesis
    using frame attrs others differs by (intro conjI) (elim conjE, assumption)+
qed

theorem input_record_updated_in_place_witness:
  "fst (format_payload_for_get_request False 0 (sample_world (sample_args (PyInt 7) ''2024-06-01'')))
     = Inr 0 \<and>
   printed (snd (format_payload_for_get_request False 0
                   (sample_world (sample_args (PyInt 7) ''2024-06-01'')))) = [] \<and>
   sent (snd (format_payload_for_get_request False 0
                (sample_world (sample_args (PyInt 7) ''2024-06-01'')))) = [] \<and>
   ns (snd (format_payload_for_get_request False 0
              (sample_world (sample_args (PyInt 7) ''2024-06-01'')))) 2 = [] \<and>
   map_of (ns (snd (format_payload_for_get_request False 0
                      (sample_world (sample_args (PyInt 7) ''2024-06-01'')))) 0) ''typeFlight''
     = Some (PyStr ''return'') \<and>
   map_of (ns (snd (format_payload_for_get_request False 0
                      (sample_world (sample_args (PyInt 7) ''2024-06-01'')))) 0) ''daysInDestination''
     = Some (PyInt 7) \<and>
   map_of (ns (snd (format_payload_for_get_request False 0
                      (sample_world (sample_args (PyInt 7) ''2024-06-01'')))) 0) ''dateFrom''
     = Some (PyStr ''01/06/2024'') \<and>
   map_of (ns (snd (format_payload_for_get_request False 0
                      (sample_world (sample_args (PyInt 7) ''2024-06-01'')))) 0) ''flyFrom''
     = Some (PyStr ''NYC'') \<and>
   ns (snd (format_payload_for_get_request False 0
              (sample_world (sample_args (PyInt 7) ''2024-06-01'')))) 0 \<noteq>
     sample_args (PyInt 7) ''2024-06-01''"
proof -
  let ?w = "sample_world (sample_args (PyInt 7) ''2024-06-01'')"
  let ?w' = "snd (format_payload_for_get_request False 0 ?w)"
  have r: "fst (format_payload_for_get_request False 0 ?w) = Inr 0"
    by code_simp
  have w: "printed ?w = []" "sent ?w = []" "ns ?w 2 = []"
          "ns ?w 0 = sample_args (PyInt 7) ''2024-06-01''"
    by (simp_all add: sample_world_def)
  have a: "map_of (sample_args (PyInt 7) ''2024-06-01'') ''daysInDestination'' = Some (PyInt 7)"
          "map_of (sample_args (PyInt 7) ''2024-06-01'') ''dateFrom'' = Some (PyStr ''2024-06-01'')"
          "map_of (sample_args (PyInt 7) ''2024-06-01'') ''flyFrom'' = Some (PyStr ''NYC'')"
    by (simp_all add: sample_args_def)
  have p: "strptime ''2024-06-01'' fmt_Ymd = Some \<lparr>year = 2024, month = 6, day = 1\<rparr>"
    by code_simp
  have f: "strftime False \<lparr>year = 2024, month = 6, day = 1\<rparr> fmt_dmY = ''01/06/2024''"
    by code_simp
  have two: "(2::nat) \<noteq> 0"
    by simp
  have k: "''flyFrom'' \<noteq> ''dateFrom''" "''flyFrom'' \<noteq> ''typeFlight''"
          "''flyFrom'' \<noteq> ''daysInDestination''"
    by simp_all
  note u = input_record_updated_in_place [OF run_pair [OF r]]
  note u2 = u [THEN conjunct2]
  note u3 = u2 [THEN conjunct2]
  note u5 = u3 [THEN conjunct2, THEN conjunct2]
  note u6 = u5 [THEN conjunct2]
  note u7 = u6 [THEN conjunct2]
  have frame: "printed ?w' = printed ?w" "sent ?w' = sent ?w"
    by (rule u2 [THEN conjunct1], rule u3 [THEN conjunct1])
  have other: "ns ?w' 2 = ns ?w 2"
    by (rule u5 [THEN conjunct1, rule_format, OF two])
  have changed: "ns ?w' 0 \<noteq> ns ?w 0"
    by (rule u7 [THEN conjunct2])
  have fly: "map_of (ns ?w' 0) ''flyFrom'' = map_of (ns ?w 0) ''flyFrom''"
    by (rule u7 [THEN conjunct1, rule_format, OF k])
  obtain n s dt where o: "map_of (ns ?w 0) ''daysInDestination'' = Some n"
      "map_of (ns ?w 0) ''dateFrom'' = Some (PyStr s)"
      "strptime s fmt_Ymd = Some dt"
      "map_of (ns ?w' 0) ''dateFrom'' = Some (PyStr (strftime False dt fmt_dmY))"
      "map_of (ns ?w' 0) ''typeFlight'' = Some (PyStr (if n = PyNone then ''oneway'' else ''return''))"
      "map_of (ns ?w' 0) ''daysInDestination'' = (if n = PyNone then None else Some n)"
    using u6 [THEN conjunct1] by (elim exE conjE)
  have n: "n = PyInt 7"
    using o(1) unfolding w(4) a(1) by simp
  have s: "s = ''2024-06-01''"
    using o(2) unfolding w(4) a(2) by simp
  have dt: "dt = \<lparr>year = 2024, month = 6, day = 1\<rparr>"
    using o(3) p s by simp
  have attrs: "map_of (ns ?w' 0) ''typeFlight'' = Some (PyStr ''return'')"
      "map_of (ns ?w' 0) ''daysInDestination'' = Some (PyInt 7)"
      "map_of (ns ?w' 0) ''dateFrom'' = Some (PyStr ''01/06/2024'')"
    using o(4,5,6) n dt f by simp_all
  show ?thesis
    using r frame other changed fly attrs by (simp add: w a)
qed

section \<open>The parser refuses two options of one group\<close>

lemma conflicts_sym: "b \<in> set (conflicts a) \<Longrightarrow> a \<in> set (conflicts b)"
  by (cases a) auto

lemma exclusive_iff:
  "exclusive seen \<longleftrightarrow> (\<forall>x\<in>set seen. \<forall>y\<in>set seen. y \<notin> set (conflicts x))"
  by (simp add: exclusive_def list_all_iff)

lemma take_action_fails:
  "take_action int_of a args st = Inl f \<Longrightarrow> a \<noteq> Help \<Longrightarrow> f = SysExit 2"
  by (cases a) (auto simp: take_action_def split: option.splits if_splits)


lemma take_action_seen:
  assumes "take_action int_of a args st = Inr st'"
  shows "seen_actions st' = a # seen_actions st" and "extras st' = extras st"
    and "\<forall>c\<in>set (conflicts a). c \<notin> set (seen_actions st)"
proof -
  obtain v where v: "get_values int_of a args = Some v"
    using assms by (auto simp: take_action_def split: option.splits)
  have c: "\<not> list_ex (\<lambda>c. c \<in> set (seen_actions st)) (conflicts a)"
    using assms v by (auto simp: take_action_def split: if_splits)
  obtain d where d: "call_action a v (namespace st) = Inr d"
    using assms v c by (cases "call_action a v (namespace st)") (auto simp: take_action_def)
  have st': "st' = st\<lparr>namespace := d, seen_actions := a # seen_actions st\<rparr>"
    using assms v c d by (simp add: take_action_def)
  show "seen_actions st' = a # seen_actions st" and "extras st' = extras st"
    by (simp_all add: st')
  show "\<forall>c\<in>set (conflicts a). c \<notin> set (seen_actions st)"
    using c by (simp add: list_ex_iff)
qed


lemma take_action_exclusive:
  assumes "take_action int_of a args st = Inr st'" and "exclusive (seen_actions st)"
  shows "exclusive (seen_actions st')"
proof -
  have self: "a \<notin> set (conflicts a)"
    by (cases a) simp_all
  have new: "y \<notin> set (conflicts a)" if "y \<in> set (seen_actions st)" for y
    using take_action_seen(3) [OF assms(1)] that by blast
  have old: "a \<notin> set (conflicts x)" if "x \<in> set (seen_actions st)" for x
    using new [OF that] conflicts_sym [of a x] by blast
  have both: "y \<notin> set (conflicts x)"
    if "x \<in> set (seen_actions st)" "y \<in> set (seen_actions st)" for x y
    using assms(2) that unfolding exclusive_iff by blast
  have "y \<notin> set (conflicts x)"
    if "x \<in> set (a # seen_actions st)" "y \<in> set (a # seen_actions st)" for x y
  proof (cases "x = a")
    case True
    then show ?thesis using self new that(2) by (cases "y = a") auto
  next
    case False
    then have x: "x \<in> set (seen_actions st)" using that(1) by simp
    show ?thesis using old [OF x] both [OF x] that(2) by (cases "y = a") auto
  qed
  then show ?thesis
    unfolding exclusive_iff take_action_seen(1) [OF assms(1)] by blast
qed


lemma consume_skip:
  "\<not> (\<exists>act os e. t = Opt (Some act) os e) \<Longrightarrow>
   consume int_of st ((s, t) # rest) = consume int_of (st\<lparr>extras := extras st @ [s]\<rparr>) rest"
  by (cases "(int_of, st, (s, t) # rest)" rule: consume.cases) auto

lemma consume_conflict:
  assumes ab: "b \<in> set (conflicts a)"
  shows "exclusive (seen_actions st) \<Longrightarrow> \<forall>(s, t)\<in>set ps. plain t \<Longrightarrow>
         a \<in> set (seen_actions st) \<or> (\<exists>s os e. (s, Opt (Some a) os e) \<in> set ps) \<Longrightarrow>
         b \<in> set (seen_actions st) \<or> (\<exists>s os e. (s, Opt (Some b) os e) \<in> set ps) \<Longrightarrow>
         consume int_of st (ps @ qs) = Inl (SysExit 2)"
proof (induction ps arbitrary: st qs rule: length_induct)
  case (1 ps)
  have IH: "consume int_of st' (ys @ qs') = Inl (SysExit 2)"
    if "length ys < length ps" "exclusive (seen_actions st')" "\<forall>(s, t)\<in>set ys. plain t"
       "a \<in> set (seen_actions st') \<or> (\<exists>s os e. (s, Opt (Some a) os e) \<in> set ys)"
       "b \<in> set (seen_actions st') \<or> (\<exists>s os e. (s, Opt (Some b) os e) \<in> set ys)"
    for ys st' qs'
    using "1.IH" that by blast
  show ?case
  proof (cases ps)
    case Nil
    then have "a \<in> set (seen_actions st)" "b \<in> set (seen_actions st)"
      using "1.prems"(3,4) by auto
    then have False
      using ab "1.prems"(1) unfolding exclusive_iff by blast
    then show ?thesis ..
  next
    case (Cons p ps')
    obtain s t where p: "p = (s, t)"
      by (cases p)
    have pl': "\<forall>(s, t)\<in>set ps'. plain t"
      using "1.prems"(2) Cons by auto
    show ?thesis
    proof (cases "\<exists>act os e. t = Opt (Some act) os e")
      case False
      have "consume int_of st (ps @ qs) =
              consume int_of (st\<lparr>extras := extras st @ [s]\<rparr>) (ps' @ qs)"
        unfolding Cons p using consume_skip [OF False] by simp
      moreover have "consume int_of (st\<lparr>extras := extras st @ [s]\<rparr>) (ps' @ qs) = Inl (SysExit 2)"
        using "1.prems"(1,3,4) pl' False Cons p by (intro IH) auto
      ultimately show ?thesis by simp
    next
      case True
      then obtain act os e where t: "t = Opt (Some act) os e"
        by blast
      have act: "act \<noteq> Help" "take 2 os = ''--''"
        using "1.prems"(2) Cons p t by auto
      have after: "consume int_of st' (ys @ qs') = Inl (SysExit 2)"
        if ok: "take_action int_of act args st = Inr st'" and len: "length ys < length ps"
          and ys: "\<forall>(s, t)\<in>set ys. plain t"
              "\<And>x s os e. (s, Opt (Some x) os e) \<in> set ps' \<Longrightarrow> \<exists>s os e. (s, Opt (Some x) os e) \<in> set ys"
        for args st' ys qs'
      proof -
        have seen: "seen_actions st' = act # seen_actions st"
          by (rule take_action_seen(1) [OF ok])
        have "x \<in> set (seen_actions st') \<or> (\<exists>s os e. (s, Opt (Some x) os e) \<in> set ys)"
          if "x \<in> set (seen_actions st) \<or> (\<exists>s os e. (s, Opt (Some x) os e) \<in> set ps)" for x
          using that ys(2) [of _ x] unfolding seen Cons p t by auto
        then show ?thesis
          using "1.prems"(3,4) take_action_exclusive [OF ok "1.prems"(1)] ys(1) len
          by (intro IH) auto
      qed
      have fails: "f = SysExit 2" if "take_action int_of act args st = Inl f" for args f
        using take_action_fails [OF that act(1)] .
      show ?thesis
      proof (cases e)
        case (Some x)
        show ?thesis
        proof (cases "takes_arg act")
          case True
          show ?thesis
          proof (cases "take_action int_of act [x] st")
            case (Inl f)
            then show ?thesis
              unfolding Cons p t Some using True fails [OF Inl] by simp
          next
            case (Inr st')
            have "consume int_of st' (ps' @ qs) = Inl (SysExit 2)"
              using pl' Cons by (intro after [OF Inr]) auto
            then show ?thesis
              unfolding Cons p t Some using True Inr by simp
          qed
        next
          case False
          then show ?thesis
            unfolding Cons p t Some using act(2) by simp
        qed
      next
        case None
        show ?thesis
        proof (cases "takes_arg act")
          case False
          show ?thesis
          proof (cases "take_action int_of act [] st")
            case (Inl f)
            then show ?thesis
              unfolding Cons p t None using False fails [OF Inl] by simp
          next
            case (Inr st')
            have "consume int_of st' (ps' @ qs) = Inl (SysExit 2)"
              using pl' Cons by (intro after [OF Inr]) auto
            then show ?thesis
              unfolding Cons p t None using False Inr by simp
          qed
        next
          case True
          show ?thesis
          proof (cases "ps' @ qs")
            case Nil
            then show ?thesis
              unfolding Cons p t None using True by simp
          next
            case next_tok: (Cons q rest)
            obtain s' t' where q: "q = (s', t')"
              by (cases q)
            show ?thesis
            proof (cases "t' = Arg")
              case False
              then show ?thesis
                unfolding Cons p t None using True next_tok q
                by (cases t') (simp_all add: next_tok q)
            next
              case isarg: True
              show ?thesis
              proof (cases "take_action int_of act [s'] st")
                case (Inl f)
                then show ?thesis
                  unfolding Cons p t None using True next_tok q isarg fails [OF Inl]
                  by (simp add: next_tok q)
              next
                case (Inr st')
                have "consume int_of st' rest = Inl (SysExit 2)"
                proof (cases ps')
                  case Nil
                  have "consume int_of st' ([] @ rest) = Inl (SysExit 2)"
                    using Cons Nil by (intro after [OF Inr]) auto
                  then show ?thesis by simp
                next
                  case ps'': (Cons q' ps'')
                  then have r: "q' = (s', Arg)" "rest = ps'' @ qs"
                    using next_tok q isarg by auto
                  have "consume int_of st' (ps'' @ qs) = Inl (SysExit 2)"
                    using pl' Cons ps'' r(1) by (intro after [OF Inr]) auto
                  then show ?thesis using r(2) by simp
                qed
                then show ?thesis
                  unfolding Cons p t None using True next_tok q isarg Inr
                  by (simp add: next_tok q)
              qed
            qed
          qed
        qed
      qed
    qed
  qed
qed


lemma consume_fails:
  "\<forall>(s, t)\<in>set ts. plain t \<Longrightarrow> consume int_of st ts = Inl f \<Longrightarrow> f = SysExit 2"
proof (induction int_of st ts rule: consume.induct)
  case (1 int_of st)
  then show ?case by simp
next
  case (2 int_of st s action option_string explicit_arg rest)
  then show ?case
    by (auto split: if_splits sum.splits dest: take_action_fails)
next
  case (3 int_of st s action option_string rest)
  then show ?case
    by (auto split: if_splits sum.splits list.splits tok.splits dest: take_action_fails)
qed auto

lemma consume_extras:
  "consume int_of st ts = Inr st' \<Longrightarrow> extras st \<noteq> [] \<or> (\<exists>s. (s, Sep) \<in> set ts) \<Longrightarrow>
   extras st' \<noteq> []"
proof (induction int_of st ts rule: consume.induct)
  case (1 int_of st)
  then show ?case by simp
next
  case (2 int_of st s action option_string explicit_arg rest)
  then show ?case
    by (auto split: if_splits sum.splits dest: take_action_seen(2))
next
  case (3 int_of st s action option_string rest)
  show ?case
  proof (cases "takes_arg action")
    case False
    then obtain st1 where t: "take_action int_of action [] st = Inr st1"
        and c: "consume int_of st1 rest = Inr st'"
      using "3.prems"(1) by (auto split: sum.splits)
    have "extras st1 \<noteq> [] \<or> (\<exists>s. (s, Sep) \<in> set rest)"
      using "3.prems"(2) take_action_seen(2) [OF t] by auto
    then show ?thesis
      using "3.IH"(2) [OF False t c] by simp
  next
    case True
    then obtain s' rest' st1 where r: "rest = (s', Arg) # rest'"
        and t: "take_action int_of action [s'] st = Inr st1"
        and c: "consume int_of st1 rest' = Inr st'"
      using "3.prems"(1) by (auto split: sum.splits list.splits tok.splits)
    have "extras st1 \<noteq> [] \<or> (\<exists>s. (s, Sep) \<in> set rest')"
      using "3.prems"(2) take_action_seen(2) [OF t] r by auto
    then show ?thesis
      using "3.IH"(1) [OF True r refl refl t c] by simp
  qed
qed auto


lemma table_two_dashes:
  "(os, a) \<in> set option_string_actions \<Longrightarrow> a \<noteq> Help \<Longrightarrow> take 2 os = ''--''"
  by (auto simp: option_string_actions_def)

lemma tuples_from_table:
  "(a, os, e) \<in> set (get_option_tuples s) \<Longrightarrow> (os, a) \<in> set option_string_actions"
  by (auto simp: get_option_tuples_def Let_def split: if_splits)

lemma parse_optional_from_table:
  assumes "parse_optional s = Opt (Some a) os e"
  shows "(os, a) \<in> set option_string_actions"
proof (cases "map_of option_string_actions s")
  case (Some a')
  then show ?thesis
    using assms by (auto simp: parse_optional_def split: if_splits dest: map_of_SomeD)
next
  case None
  show ?thesis
  proof (cases "if CHR ''='' \<in> set s then map_of option_string_actions (fst (split_eq s)) else None")
    case (Some a')
    then show ?thesis
      using assms None by (auto simp: parse_optional_def split: if_splits dest: map_of_SomeD)
  next
    case no_eq: None
    have "get_option_tuples s = [(a, os, e)]"
      using assms None no_eq
      by (simp add: parse_optional_def split: if_splits list.splits prod.splits)
    then have "(a, os, e) \<in> set (get_option_tuples s)"
      by simp
    then show ?thesis
      by (rule tuples_from_table)
  qed
qed

lemma parse_optional_plain: "\<not> asks_help s \<Longrightarrow> plain (parse_optional s)"
proof (cases "parse_optional s")
  case (Opt x os e)
  assume h: "\<not> asks_help s"
  show ?thesis
  proof (cases x)
    case None
    then show ?thesis using Opt by simp
  next
    case (Some a)
    have "a \<noteq> Help"
      using h Opt Some by (auto simp: asks_help_def)
    then show ?thesis
      using table_two_dashes [OF parse_optional_from_table] Opt Some by simp
  qed
qed simp_all

lemma classify_no_sep:
  "''--'' \<notin> set xs \<Longrightarrow> classify (xs @ ys) = map (\<lambda>s. (s, parse_optional s)) xs @ classify ys"
  by (induction xs) auto

lemma classify_plain:
  "\<forall>s\<in>set xs. \<not> asks_help s \<Longrightarrow> \<forall>(s, t)\<in>set (classify xs). plain t"
  by (induction xs) (auto simp: parse_optional_plain)

lemma classify_sep:
  "''--'' \<in> set xs \<Longrightarrow>
   classify (xs @ ys) = classify xs @ map (\<lambda>s. (s, Arg)) ys \<and> (''--'', Sep) \<in> set (classify xs)"
  by (induction xs) auto


lemma parse_args_failed:
  "parse_known_args int_of argv = Inl f \<Longrightarrow> parse_args int_of argv w = (Inl f, w)"
  by (simp add: parse_args_def)

lemma main_parse_failed:
  "parse_args int_of argv w = (Inl f, w') \<Longrightarrow> main pad repr int_of net argv w = (Inl f, w')"
  by (simp add: main_def bind_def)

lemma rejected_group:
  assumes ab: "b \<in> set (conflicts a)"
    and fa: "fa \<in> set pre" "parse_optional fa = Opt (Some a) fa None"
    and fb: "fb \<in> set pre" "parse_optional fb = Opt (Some b) fb None"
    and nh: "\<forall>s\<in>set pre. \<not> asks_help s"
  shows "parse_args int_of (pre @ post) w = (Inl (SysExit 2), w)"
proof (cases "''--'' \<in> set pre")
  case False
  let ?ps = "map (\<lambda>s. (s, parse_optional s)) pre"
  let ?st = "\<lparr>namespace = defaults, seen_actions = [], extras = []\<rparr>"
  have c: "classify (pre @ post) = ?ps @ classify post"
    by (rule classify_no_sep [OF False])
  have pl: "\<forall>(s, t)\<in>set ?ps. plain t"
    using nh parse_optional_plain by auto
  have ha: "a \<in> set (seen_actions ?st) \<or> (\<exists>s os e. (s, Opt (Some a) os e) \<in> set ?ps)"
    using fa by force
  have hb: "b \<in> set (seen_actions ?st) \<or> (\<exists>s os e. (s, Opt (Some b) os e) \<in> set ?ps)"
    using fb by force
  have ex: "exclusive (seen_actions ?st)"
    by (simp add: exclusive_def)
  have "consume int_of ?st (?ps @ classify post) = Inl (SysExit 2)"
    by (rule consume_conflict [OF ab ex pl ha hb])
  then have "parse_known_args int_of (pre @ post) = Inl (SysExit 2)"
    by (simp add: parse_known_args_def Let_def c)
  then show ?thesis
    by (rule parse_args_failed)
next
  case True
  let ?ts = "classify (pre @ post)"
  let ?st = "\<lparr>namespace = defaults, seen_actions = [], extras = []\<rparr>"
  have c: "?ts = classify pre @ map (\<lambda>s. (s, Arg)) post" and sep: "(''--'', Sep) \<in> set ?ts"
    using classify_sep [OF True, of post] by auto
  have pl: "\<forall>(s, t)\<in>set ?ts. plain t"
    using classify_plain [OF nh] unfolding c by auto
  show ?thesis
  proof (cases "consume int_of ?st ?ts")
    case (Inl f)
    have "f = SysExit 2"
      by (rule consume_fails [OF pl Inl])
    then have "parse_known_args int_of (pre @ post) = Inl (SysExit 2)"
      using Inl by (simp add: parse_known_args_def Let_def)
    then show ?thesis
      by (rule parse_args_failed)
  next
    case (Inr st')
    have e: "extras st' \<noteq> []"
      using consume_extras [OF Inr] sep by blast
    show ?thesis
      using Inr e by (simp add: parse_args_def parse_known_args_def Let_def sys_exit_def)
  qed
qed

text \<open>
  C9, as the specification states it, fails: the help option is acted on as soon as the
  parser reaches it, so a command line that asks for help first prints the help text and
  exits with code 0, whatever conflicting options follow.
\<close>

theorem help_before_conflict:
  "''--one-way'' \<in> set [''-h'', ''--one-way'', ''--return'', ''10''] \<and>
   ''--return'' \<in> set [''-h'', ''--one-way'', ''--return'', ''10''] \<and>
   parse_args int_of_digits [''-h'', ''--one-way'', ''--return'', ''10''] empty_world =
     (Inl (SysExit 0), empty_world) \<and>
   parse_args int_of_digits [''--help'', ''--cheapest'', ''--shortest''] empty_world =
     (Inl (SysExit 0), empty_world)"
proof -
  have "parse_known_args int_of_digits [''-h'', ''--one-way'', ''--return'', ''10''] =
          Inl (SysExit 0)"
       "parse_known_args int_of_digits [''--help'', ''--cheapest'', ''--shortest''] =
          Inl (SysExit 0)"
    by code_simp+
  then show ?thesis
    by (simp add: parse_args_failed)
qed

text \<open>
  C9, amended. When \<open>--one-way\<close> and \<open>--return\<close> both occur on the command line, or
  \<open>--cheapest\<close> and \<open>--shortest\<close> both do, and no argument up to there asks for help, then
  whatever follows, parsing ends in a usage error: the program exits with code 2 with the
  world untouched, so no namespace is made, no payload built and no request sent.
\<close>

theorem conflicting_options_rejected:
  assumes "(''--one-way'' \<in> set pre \<and> ''--return'' \<in> set pre) \<or>
           (''--cheapest'' \<in> set pre \<and> ''--shortest'' \<in> set pre)"
    and "\<forall>s\<in>set pre. \<not> asks_help s"
  shows "parse_args int_of (pre @ post) w = (Inl (SysExit 2), w) \<and>
         main pad repr int_of net (pre @ post) w = (Inl (SysExit 2), w)"
proof -
  have o: "parse_optional ''--one-way'' = Opt (Some OneWay) ''--one-way'' None"
          "parse_optional ''--return'' = Opt (Some Return) ''--return'' None"
          "parse_optional ''--cheapest'' = Opt (Some Cheapest) ''--cheapest'' None"
          "parse_optional ''--shortest'' = Opt (Some Shortest) ''--shortest'' None"
    by code_simp+
  have "parse_args int_of (pre @ post) w = (Inl (SysExit 2), w)"
    using assms(1)
  proof
    assume "''--one-way'' \<in> set pre \<and> ''--return'' \<in> set pre"
    then show ?thesis
      using rejected_group [where a = OneWay and b = Return, OF _ _ o(1) _ o(2) assms(2)]
      by simp
  next
    assume "''--cheapest'' \<in> set pre \<and> ''--shortest'' \<in> set pre"
    then show ?thesis
      using rejected_group [where a = Cheapest and b = Shortest, OF _ _ o(3) _ o(4) assms(2)]
      by simp
  qed
  then show ?thesis
    by (simp add: main_parse_failed)
qed

theorem conflicting_options_rejected_witness:
  "parse_args int_of_digits
     [''--date'', ''2024-06-01'', ''--one-way'', ''--return'', ''10'', ''--from'', ''NYC'', ''-h'']
     empty_world = (Inl (SysExit 2), empty_world) \<and>
   main False sample_repr int_of_digits (sample_net OtherError OtherError)
     [''--date'', ''2024-06-01'', ''--one-way'', ''--return'', ''10'', ''--from'', ''NYC'', ''-h'']
     empty_world = (Inl (SysExit 2), empty_world) \<and>
   parse_args int_of_digits [''--shortest'', ''--cheapest''] empty_world =
     (Inl (SysExit 2), empty_world)"
proof -
  have a: "(''--one-way'' \<in> set [''--date'', ''2024-06-01'', ''--one-way'', ''--return''] \<and>
            ''--return'' \<in> set [''--date'', ''2024-06-01'', ''--one-way'', ''--return'']) \<or>
           (''--cheapest'' \<in> set [''--date'', ''2024-06-01'', ''--one-way'', ''--return''] \<and>
            ''--shortest'' \<in> set [''--date'', ''2024-06-01'', ''--one-way'', ''--return''])"
    by simp
  have b: "(''--one-way'' \<in> set [''--shortest'', ''--cheapest''] \<and>
            ''--return'' \<in> set [''--shortest'', ''--cheapest'']) \<or>
           (''--cheapest'' \<in> set [''--shortest'', ''--cheapest''] \<and>
            ''--shortest'' \<in> set [''--shortest'', ''--cheapest''])"
    by simp
  have h: "\<forall>s\<in>set [''--date'', ''2024-06-01'', ''--one-way'', ''--return'']. \<not> asks_help s"
          "\<forall>s\<in>set [''--shortest'', ''--cheapest'']. \<not> asks_help s"
    by code_simp+
  note one = conflicting_options_rejected [OF a h(1), where post = "[''10'', ''--from'', ''NYC'', ''-h'']"
               and int_of = int_of_digits and w = empty_world and pad = False
               and repr = sample_repr and net = "sample_net OtherError OtherError"]
  note two = conflicting_options_rejected [OF b h(2), where post = "[]"
               and int_of = int_of_digits and w = empty_world and pad = False
               and repr = sample_repr and net = "sample_net OtherError OtherError"]
  show ?thesis
    using one two by simp
qed

end
